theory Spec2Isabelle
  imports Complex_Main
begin

section \<open>Go values: errors, formatting, time\<close>

text \<open>
  A Go \<^verbatim>\<open>error\<close> is a value. The model keeps apart the two sentinels the code compares
  against (\<^verbatim>\<open>sql.ErrNoRows\<close>, \<^verbatim>\<open>redis.Nil\<close>), errors produced by the database and
  cache drivers, errors built by \<^verbatim>\<open>fmt.Errorf\<close> without \<^verbatim>\<open>%w\<close> (plain text) and with
  \<^verbatim>\<open>%w\<close> (text plus the wrapped error), and a run-time panic.
\<close>

datatype go_error =
    ErrNoRows
  | RedisNil
  | DriverError string
  | ErrorString string
  | WrapError string go_error
  | Panic string

text \<open>\<^verbatim>\<open>err.Error()\<close>: the message of an error.\<close>

fun Error :: "go_error \<Rightarrow> string" where
  "Error ErrNoRows = ''sql: no rows in result set''"
| "Error RedisNil = ''redis: nil''"
| "Error (DriverError m) = m"
| "Error (ErrorString m) = m"
| "Error (WrapError m e) = m"
| "Error (Panic m) = m"

text \<open>\<^verbatim>\<open>errors.Unwrap(err)\<close>.\<close>

fun Unwrap :: "go_error \<Rightarrow> go_error option" where
  "Unwrap (WrapError m e) = Some e"
| "Unwrap e = None"

text \<open>\<^verbatim>\<open>fmt.Errorf(prefix + "%w", err)\<close>.\<close>

definition Errorf_w :: "string \<Rightarrow> go_error \<Rightarrow> go_error" where
  "Errorf_w prefix err = WrapError (prefix @ Error err) err"

text \<open>\<^verbatim>\<open>fmt.Sprintf("%d", n)\<close>: the decimal rendering of an integer.\<close>

definition digit :: "nat \<Rightarrow> char" where
  "digit d = ''0123456789'' ! d"

fun digits :: "nat \<Rightarrow> string" where
  "digits n =
     (if n < 10 then [digit n]
      else digits (n div 10) @ [digit (n mod 10)])"

declare digits.simps [simp del]

definition Sprintf_d :: "int \<Rightarrow> string" where
  "Sprintf_d n = (if n < 0 then CHR ''-'' # digits (nat (- n)) else digits (nat n))"

text \<open>
  A \<^verbatim>\<open>time.Time\<close> is the number of nanoseconds since the Unix epoch (what
  \<^verbatim>\<open>UnixNano()\<close> returns), a \<^verbatim>\<open>time.Duration\<close> a number of nanoseconds. The
  process clock is an arbitrary sequence of readings; each call of \<^verbatim>\<open>time.Now()\<close>
  takes the next one.
\<close>

definition time_Second :: int where
  "time_Second = 1000000000"

definition time_Minute :: int where
  "time_Minute = 60 * time_Second"

record sys_clock =
  clock :: "nat \<Rightarrow> int"
  clock_reads :: nat

definition time_Now :: "'a sys_clock_scheme \<Rightarrow> int \<times> 'a sys_clock_scheme" where
  "time_Now s = (clock s (clock_reads s), s\<lparr>clock_reads := Suc (clock_reads s)\<rparr>)"

text \<open>
  Calls into the database driver and into the cache client can fail for reasons outside
  the program (connection loss, timeout, a constraint of the schema). The outcome of the
  upcoming calls is a script: \<open>Some m\<close> makes the next call fail with message \<open>m\<close>,
  \<open>None\<close> lets it succeed; an exhausted script means no further failure.
\<close>

definition next_fault :: "string option list \<Rightarrow> string option \<times> string option list" where
  "next_fault fs = (case fs of [] \<Rightarrow> (None, []) | f # rest \<Rightarrow> (f, rest))"

section \<open>Domain model (internal/domain/models/album.go)\<close>

text \<open>
  \<^verbatim>\<open>Price\<close> is a \<^verbatim>\<open>float64\<close> in the source; the model takes the decimal number it
  denotes. \<^verbatim>\<open>NaN\<close> and the infinities are not modelled.
\<close>

record album =
  ID :: string
  Title :: string
  Artist :: string
  Price :: rat
  Year :: int
  Genre :: string
  Condition :: string
  InStock :: bool
  CreatedAt :: int
  UpdatedAt :: int

text \<open>
  The interface \<^verbatim>\<open>AlbumRepository\<close> over an implementation with state \<open>'s\<close>. A Go
  result \<^verbatim>\<open>(*Album, error)\<close> is a pair of options (\<open>None\<close> is \<^verbatim>\<open>nil\<close>), a result
  \<^verbatim>\<open>([]Album, error)\<close> a list with an optional error (the \<^verbatim>\<open>nil\<close> slice is the empty
  list). \<^verbatim>\<open>Create\<close> and \<^verbatim>\<open>Update\<close> write through their pointer argument, so they
  return the album as they leave it.
\<close>

record 's AlbumRepository =
  GetAll :: "'s \<Rightarrow> (album list \<times> go_error option) \<times> 's"
  GetByID :: "string \<Rightarrow> 's \<Rightarrow> (album option \<times> go_error option) \<times> 's"
  Create :: "album \<Rightarrow> 's \<Rightarrow> (album \<times> go_error option) \<times> 's"
  Update :: "album \<Rightarrow> 's \<Rightarrow> (album \<times> go_error option) \<times> 's"
  Delete :: "string \<Rightarrow> 's \<Rightarrow> go_error option \<times> 's"
  GetByArtist :: "string \<Rightarrow> 's \<Rightarrow> (album list \<times> go_error option) \<times> 's"
  GetInStock :: "'s \<Rightarrow> (album list \<times> go_error option) \<times> 's"

section \<open>Cache backend (package redis)\<close>

text \<open>
  The server's keyspace maps a key to its value and the time-to-live it was stored with.
  \<open>ttl\<close> is the client's default expiry.
\<close>

record RedisClient =
  kv :: "string \<Rightarrow> (string \<times> int) option"
  ttl :: int
  redis_faults :: "string option list"

text \<open>The three commands of the go-redis client the wrapper uses.\<close>

definition client_Get :: "string \<Rightarrow> RedisClient \<Rightarrow> (string \<times> go_error option) \<times> RedisClient" where
  "client_Get key r =
     (let (f, rest) = next_fault (redis_faults r);
          r' = r\<lparr>redis_faults := rest\<rparr>
      in case f of
           Some m \<Rightarrow> (('''', Some (DriverError m)), r')
         | None \<Rightarrow>
             (case kv r key of
                None \<Rightarrow> (('''', Some RedisNil), r')
              | Some (v, t) \<Rightarrow> ((v, None), r')))"

definition client_Set :: "string \<Rightarrow> string \<Rightarrow> int \<Rightarrow> RedisClient \<Rightarrow> go_error option \<times> RedisClient" where
  "client_Set key val t r =
     (let (f, rest) = next_fault (redis_faults r);
          r' = r\<lparr>redis_faults := rest\<rparr>
      in case f of
           Some m \<Rightarrow> (Some (DriverError m), r')
         | None \<Rightarrow> (None, r'\<lparr>kv := (kv r')(key \<mapsto> (val, t))\<rparr>))"

definition client_Del :: "string \<Rightarrow> RedisClient \<Rightarrow> go_error option \<times> RedisClient" where
  "client_Del key r =
     (let (f, rest) = next_fault (redis_faults r);
          r' = r\<lparr>redis_faults := rest\<rparr>
      in case f of
           Some m \<Rightarrow> (Some (DriverError m), r')
         | None \<Rightarrow> (None, r'\<lparr>kv := (kv r')(key := None)\<rparr>))"

text \<open>\<^verbatim>\<open>RedisClient.Set\<close>, \<^verbatim>\<open>RedisClient.Get\<close>, \<^verbatim>\<open>RedisClient.Delete\<close>.\<close>

definition Redis_Set :: "string \<Rightarrow> string \<Rightarrow> int \<Rightarrow> RedisClient \<Rightarrow> go_error option \<times> RedisClient" where
  "Redis_Set key val t r =
     (let t' = (if t = 0 then ttl r else t);
          (err, r') = client_Set key val t' r
      in case err of
           Some e \<Rightarrow> (Some (Errorf_w ''saving in Redis error: '' e), r')
         | None \<Rightarrow> (None, r'))"

definition Redis_Get :: "string \<Rightarrow> RedisClient \<Rightarrow> (string \<times> go_error option) \<times> RedisClient" where
  "Redis_Get key r =
     (let ((val, err), r') = client_Get key r
      in if err = Some RedisNil then (('''', None), r')
         else case err of
                Some e \<Rightarrow> (('''', Some (Errorf_w ''getting from Redis error: '' e)), r')
              | None \<Rightarrow> ((val, None), r'))"

definition Redis_Delete :: "string \<Rightarrow> RedisClient \<Rightarrow> go_error option \<times> RedisClient" where
  "Redis_Delete key r =
     (let (err, r') = client_Del key r
      in case err of
           Some e \<Rightarrow> (Some (Errorf_w ''deleting from Redis error: '' e), r')
         | None \<Rightarrow> (None, r'))"

section \<open>Serialization (encoding/json)\<close>

text \<open>
  The JSON library is outside the repository; the decorator is modelled over any codec.
  Marshalling returns \<open>None\<close> when \<^verbatim>\<open>json.Marshal\<close> returns an error, unmarshalling
  returns \<open>None\<close> when \<^verbatim>\<open>json.Unmarshal\<close> does.
\<close>

record json_codec =
  Marshal_album :: "album \<Rightarrow> string option"
  Marshal_albums :: "album list \<Rightarrow> string option"
  Unmarshal_album :: "string \<Rightarrow> album option"
  Unmarshal_albums :: "string \<Rightarrow> album list option"

text \<open>\<^verbatim>\<open>json.Marshal\<close> of a \<^verbatim>\<open>*Album\<close>: a \<^verbatim>\<open>nil\<close> pointer is rendered as \<^verbatim>\<open>null\<close>.\<close>

definition Marshal_ptr :: "json_codec \<Rightarrow> album option \<Rightarrow> string option" where
  "Marshal_ptr J p = (case p of None \<Rightarrow> Some ''null'' | Some a \<Rightarrow> Marshal_album J a)"

section \<open>Caching decorator (internal/repository/cached_album_repository.go)\<close>

text \<open>
  A statement \<^verbatim>\<open>go func() { ... }()\<close> detaches a goroutine. Its body is a sequence of
  cache commands; the state keeps the commands each detached goroutine has still to run.
  The caller does not wait: the commands run later, one at a time, in any interleaving
  with other goroutines, and their errors are logged only.
\<close>

datatype cache_op =
    CacheSet string string int
  | CacheDel string

record 's cached_state =
  store :: 's
  redis :: RedisClient
  goroutines :: "cache_op list list"

definition go :: "cache_op list \<Rightarrow> 's cached_state \<Rightarrow> 's cached_state" where
  "go body w = w\<lparr>goroutines := goroutines w @ [body]\<rparr>"

definition generateCacheKey :: "string \<Rightarrow> string \<Rightarrow> string" where
  "generateCacheKey dataType id' = ''album:'' @ dataType @ '':'' @ id'"

text \<open>
  The body of the population goroutines: marshal, and on success one \<^verbatim>\<open>Set\<close> with the
  given expiry.
\<close>

definition populate :: "string option \<Rightarrow> string \<Rightarrow> int \<Rightarrow> cache_op list" where
  "populate marshalled cacheKey expiry =
     (case marshalled of
        Some data \<Rightarrow> [CacheSet cacheKey data expiry]
      | None \<Rightarrow> [])"

definition Cached_GetAll ::
  "json_codec \<Rightarrow> 's AlbumRepository \<Rightarrow> 's cached_state \<Rightarrow>
     (album list \<times> go_error option) \<times> 's cached_state" where
  "Cached_GetAll J repo w =
     (let cacheKey = generateCacheKey ''all'' '''';
          ((cachedData, err), r1) = Redis_Get cacheKey (redis w);
          w1 = w\<lparr>redis := r1\<rparr>
      in case (if cachedData \<noteq> '''' then Unmarshal_albums J cachedData else None) of
           Some albums \<Rightarrow> ((albums, None), w1)
         | None \<Rightarrow>
             (let ((albums, err), s1) = GetAll repo (store w1);
                  w2 = w1\<lparr>store := s1\<rparr>
              in case err of
                   Some e \<Rightarrow> (([], Some e), w2)
                 | None \<Rightarrow>
                     ((albums, None),
                      go (populate (Marshal_albums J albums) cacheKey time_Minute) w2)))"

definition Cached_GetByID ::
  "json_codec \<Rightarrow> 's AlbumRepository \<Rightarrow> string \<Rightarrow> 's cached_state \<Rightarrow>
     (album option \<times> go_error option) \<times> 's cached_state" where
  "Cached_GetByID J repo id' w =
     (let cacheKey = generateCacheKey ''id'' id';
          ((cachedData, err), r1) = Redis_Get cacheKey (redis w);
          w1 = w\<lparr>redis := r1\<rparr>
      in case (if cachedData \<noteq> '''' then Unmarshal_album J cachedData else None) of
           Some album \<Rightarrow> ((Some album, None), w1)
         | None \<Rightarrow>
             (let ((album, err), s1) = GetByID repo id' (store w1);
                  w2 = w1\<lparr>store := s1\<rparr>
              in case err of
                   Some e \<Rightarrow> ((None, Some e), w2)
                 | None \<Rightarrow>
                     ((album, None),
                      go (populate (Marshal_ptr J album) cacheKey (5 * time_Minute)) w2)))"

definition invalidateCache :: "string \<Rightarrow> string \<Rightarrow> cache_op" where
  "invalidateCache dataType id' = CacheDel (generateCacheKey dataType id')"

definition cacheAlbum :: "json_codec \<Rightarrow> album \<Rightarrow> cache_op list" where
  "cacheAlbum J album =
     (let cacheKey = generateCacheKey ''id'' (ID album)
      in case Marshal_album J album of
           Some data \<Rightarrow> [CacheSet cacheKey data (5 * time_Minute)]
         | None \<Rightarrow> [])"

definition Cached_Create ::
  "json_codec \<Rightarrow> 's AlbumRepository \<Rightarrow> album \<Rightarrow> 's cached_state \<Rightarrow>
     (album \<times> go_error option) \<times> 's cached_state" where
  "Cached_Create J repo album w =
     (let ((album', err), s1) = Create repo album (store w);
          w1 = w\<lparr>store := s1\<rparr>
      in case err of
           Some e \<Rightarrow> ((album', Some e), w1)
         | None \<Rightarrow>
             ((album', None),
              go ([invalidateCache ''artist'' (Artist album'),
                   invalidateCache ''stock'' '''']
                  @ cacheAlbum J album') w1))"

definition Cached_Update ::
  "json_codec \<Rightarrow> 's AlbumRepository \<Rightarrow> album \<Rightarrow> 's cached_state \<Rightarrow>
     (album \<times> go_error option) \<times> 's cached_state" where
  "Cached_Update J repo album w =
     (let ((oldAlbum, ignored), s1) = GetByID repo (ID album) (store w);
          ((album', err), s2) = Update repo album s1;
          w2 = w\<lparr>store := s2\<rparr>
      in case err of
           Some e \<Rightarrow> ((album', Some e), w2)
         | None \<Rightarrow>
             ((album', None),
              go ([invalidateCache ''id'' (ID album')]
                  @ (case oldAlbum of
                       Some old \<Rightarrow> [invalidateCache ''artist'' (Artist old)]
                     | None \<Rightarrow> [])
                  @ [invalidateCache ''artist'' (Artist album'),
                     invalidateCache ''stock'' '''']) w2))"

definition Cached_Delete ::
  "json_codec \<Rightarrow> 's AlbumRepository \<Rightarrow> string \<Rightarrow> 's cached_state \<Rightarrow>
     go_error option \<times> 's cached_state" where
  "Cached_Delete J repo id' w =
     (let ((album, ignored), s1) = GetByID repo id' (store w);
          (err, s2) = Delete repo id' s1;
          w2 = w\<lparr>store := s2\<rparr>
      in case err of
           Some e \<Rightarrow> (Some e, w2)
         | None \<Rightarrow>
             (None,
              go ([invalidateCache ''id'' id']
                  @ (case album of
                       Some a \<Rightarrow> [invalidateCache ''artist'' (Artist a)]
                     | None \<Rightarrow> [])
                  @ [invalidateCache ''stock'' '''']) w2))"

definition Cached_GetByArtist ::
  "json_codec \<Rightarrow> 's AlbumRepository \<Rightarrow> string \<Rightarrow> 's cached_state \<Rightarrow>
     (album list \<times> go_error option) \<times> 's cached_state" where
  "Cached_GetByArtist J repo artist w =
     (let cacheKey = generateCacheKey ''artist'' artist;
          ((cachedData, err), r1) = Redis_Get cacheKey (redis w);
          w1 = w\<lparr>redis := r1\<rparr>
      in case (if cachedData \<noteq> '''' then Unmarshal_albums J cachedData else None) of
           Some albums \<Rightarrow> ((albums, None), w1)
         | None \<Rightarrow>
             (let ((albums, err), s1) = GetByArtist repo artist (store w1);
                  w2 = w1\<lparr>store := s1\<rparr>
              in case err of
                   Some e \<Rightarrow> (([], Some e), w2)
                 | None \<Rightarrow>
                     ((albums, None),
                      go (populate (Marshal_albums J albums) cacheKey (2 * time_Minute)) w2)))"

definition Cached_GetInStock ::
  "json_codec \<Rightarrow> 's AlbumRepository \<Rightarrow> 's cached_state \<Rightarrow>
     (album list \<times> go_error option) \<times> 's cached_state" where
  "Cached_GetInStock J repo w =
     (let cacheKey = generateCacheKey ''stock'' '''';
          ((cachedData, err), r1) = Redis_Get cacheKey (redis w);
          w1 = w\<lparr>redis := r1\<rparr>
      in case (if cachedData \<noteq> '''' then Unmarshal_albums J cachedData else None) of
           Some albums \<Rightarrow> ((albums, None), w1)
         | None \<Rightarrow>
             (let ((albums, err), s1) = GetInStock repo (store w1);
                  w2 = w1\<lparr>store := s1\<rparr>
              in case err of
                   Some e \<Rightarrow> (([], Some e), w2)
                 | None \<Rightarrow>
                     ((albums, None),
                      go (populate (Marshal_albums J albums) cacheKey (30 * time_Second)) w2)))"

text \<open>\<^verbatim>\<open>NewCachedAlbumRepository\<close>: the decorator is itself a repository.\<close>

definition NewCachedAlbumRepository ::
  "json_codec \<Rightarrow> 's AlbumRepository \<Rightarrow> 's cached_state AlbumRepository" where
  "NewCachedAlbumRepository J repo =
     \<lparr>GetAll = Cached_GetAll J repo,
      GetByID = Cached_GetByID J repo,
      Create = Cached_Create J repo,
      Update = Cached_Update J repo,
      Delete = Cached_Delete J repo,
      GetByArtist = Cached_GetByArtist J repo,
      GetInStock = Cached_GetInStock J repo\<rparr>"

subsection \<open>Running the detached goroutines\<close>

text \<open>
  One cache command of a goroutine: the call into the cache client; an error is logged
  and dropped.
\<close>

definition run_op :: "cache_op \<Rightarrow> RedisClient \<Rightarrow> RedisClient" where
  "run_op op r =
     (case op of
        CacheSet key val expiry \<Rightarrow> snd (Redis_Set key val expiry r)
      | CacheDel key \<Rightarrow> snd (Redis_Delete key r))"

text \<open>The scheduler lets goroutine \<open>i\<close> run its next command.\<close>

definition step :: "nat \<Rightarrow> 's cached_state \<Rightarrow> 's cached_state" where
  "step i w =
     (if i < length (goroutines w) then
        (case goroutines w ! i of
           [] \<Rightarrow> w
         | op # rest \<Rightarrow>
             w\<lparr>redis := run_op op (redis w),
               goroutines := (goroutines w)[i := rest]\<rparr>)
      else w)"

text \<open>A schedule is the sequence of goroutines chosen by the scheduler.\<close>

fun run_schedule :: "nat list \<Rightarrow> 's cached_state \<Rightarrow> 's cached_state" where
  "run_schedule [] w = w"
| "run_schedule (i # sched) w = run_schedule sched (step i w)"

text \<open>The key a cache command addresses.\<close>

fun op_key :: "cache_op \<Rightarrow> string" where
  "op_key (CacheSet key val expiry) = key"
| "op_key (CacheDel key) = key"

section \<open>Record store (internal/repository/postgres_album_repository.go)\<close>

text \<open>
  The table \<^verbatim>\<open>albums\<close> with the process clock and the script of driver outcomes.
  The schema declares \<^verbatim>\<open>id VARCHAR(36) PRIMARY KEY\<close>, \<^verbatim>\<open>price DECIMAL(10,2)\<close> and
  \<^verbatim>\<open>created_at\<close>, \<^verbatim>\<open>updated_at TIMESTAMP WITH TIME ZONE\<close>. A stored price is rounded
  to two fractional digits (half away from zero) and a stored timestamp to the
  microsecond; both happen silently. A duplicate key is refused. The other constraints of the schema (lengths,
  \<^verbatim>\<open>CHECK\<close>s) make the statement fail with a driver error and are among the scripted
  outcomes.
\<close>

record PostgresDB = sys_clock +
  albums_table :: "album list"
  db_faults :: "string option list"

definition numeric_10_2 :: "rat \<Rightarrow> rat" where
  "numeric_10_2 p =
     (if p < 0 then - (rat_of_int (round (- p * 100)) / 100)
      else rat_of_int (round (p * 100)) / 100)"

definition timestamptz :: "int \<Rightarrow> int" where
  "timestamptz t = ((t + 500) div 1000) * 1000"

text \<open>One interaction with the driver: it fails when the script says so.\<close>

definition driver_call :: "PostgresDB \<Rightarrow> go_error option \<times> PostgresDB" where
  "driver_call s =
     (let (f, rest) = next_fault (db_faults s)
      in (map_option DriverError f, s\<lparr>db_faults := rest\<rparr>))"

text \<open>\<^verbatim>\<open>db.Exec\<close> of the \<^verbatim>\<open>INSERT\<close> statement.\<close>

definition Exec_insert :: "album \<Rightarrow> PostgresDB \<Rightarrow> go_error option \<times> PostgresDB" where
  "Exec_insert a s =
     (let (err, s') = driver_call s
      in case err of
           Some e \<Rightarrow> (Some e, s')
         | None \<Rightarrow>
             if ID a \<in> set (map ID (albums_table s'))
             then (Some (DriverError ''pq: duplicate key value violates unique constraint''), s')
             else (None,
                   s'\<lparr>albums_table := albums_table s' @
                        [a\<lparr>Price := numeric_10_2 (Price a),
                           CreatedAt := timestamptz (CreatedAt a),
                           UpdatedAt := timestamptz (UpdatedAt a)\<rparr>]\<rparr>))"

text \<open>\<^verbatim>\<open>db.QueryRow(...).Scan(...)\<close> of the \<^verbatim>\<open>SELECT ... WHERE id = $1\<close> statement.\<close>

definition QueryRow_by_id ::
  "string \<Rightarrow> PostgresDB \<Rightarrow> (album option \<times> go_error option) \<times> PostgresDB" where
  "QueryRow_by_id id' s =
     (let (err, s') = driver_call s
      in case err of
           Some e \<Rightarrow> ((None, Some e), s')
         | None \<Rightarrow>
             (case find (\<lambda>r. ID r = id') (albums_table s') of
                None \<Rightarrow> ((None, Some ErrNoRows), s')
              | Some r \<Rightarrow> ((Some r, None), s')))"

text \<open>
  \<^verbatim>\<open>db.Exec\<close> of the \<^verbatim>\<open>UPDATE\<close> statement; the result carries the number of rows
  matched. \<^verbatim>\<open>created_at\<close> is not among the columns set.
\<close>

definition Exec_update :: "album \<Rightarrow> PostgresDB \<Rightarrow> (nat \<times> go_error option) \<times> PostgresDB" where
  "Exec_update a s =
     (let (err, s') = driver_call s
      in case err of
           Some e \<Rightarrow> ((0, Some e), s')
         | None \<Rightarrow>
             ((length (filter (\<lambda>r. ID r = ID a) (albums_table s')), None),
              s'\<lparr>albums_table :=
                   map (\<lambda>r. if ID r = ID a
                             then r\<lparr>Title := Title a, Artist := Artist a,
                                    Price := numeric_10_2 (Price a), Year := Year a,
                                    Genre := Genre a, Condition := Condition a,
                                    InStock := InStock a,
                                    UpdatedAt := timestamptz (UpdatedAt a)\<rparr>
                             else r) (albums_table s')\<rparr>))"

text \<open>\<^verbatim>\<open>db.Exec\<close> of the \<^verbatim>\<open>DELETE\<close> statement.\<close>

definition Exec_delete :: "string \<Rightarrow> PostgresDB \<Rightarrow> (nat \<times> go_error option) \<times> PostgresDB" where
  "Exec_delete id' s =
     (let (err, s') = driver_call s
      in case err of
           Some e \<Rightarrow> ((0, Some e), s')
         | None \<Rightarrow>
             ((length (filter (\<lambda>r. ID r = id') (albums_table s')), None),
              s'\<lparr>albums_table := filter (\<lambda>r. ID r \<noteq> id') (albums_table s')\<rparr>))"

text \<open>\<^verbatim>\<open>result.RowsAffected()\<close>.\<close>

definition RowsAffected :: "nat \<Rightarrow> PostgresDB \<Rightarrow> (nat \<times> go_error option) \<times> PostgresDB" where
  "RowsAffected n s =
     (let (err, s') = driver_call s
      in case err of
           Some e \<Rightarrow> ((0, Some e), s')
         | None \<Rightarrow> ((n, None), s'))"

text \<open>
  \<^verbatim>\<open>db.Query\<close> of a \<^verbatim>\<open>SELECT ... WHERE ... ORDER BY key DESC\<close> statement: the rows of
  the result set, in order (rows with equal keys come in one of the orders the server
  may choose).
\<close>

definition Query ::
  "(album \<Rightarrow> bool) \<Rightarrow> (album \<Rightarrow> int) \<Rightarrow> PostgresDB \<Rightarrow>
     (album list \<times> go_error option) \<times> PostgresDB" where
  "Query cond key s =
     (let (err, s') = driver_call s
      in case err of
           Some e \<Rightarrow> (([], Some e), s')
         | None \<Rightarrow> ((rev (sort_key key (filter cond (albums_table s'))), None), s'))"

text \<open>The loop \<^verbatim>\<open>for rows.Next() { rows.Scan(...); albums = append(albums, album) }\<close>.\<close>

fun scan_rows ::
  "album list \<Rightarrow> album list \<Rightarrow> PostgresDB \<Rightarrow> (album list \<times> go_error option) \<times> PostgresDB" where
  "scan_rows [] albums s = ((albums, None), s)"
| "scan_rows (row # rows) albums s =
     (let (err, s') = driver_call s
      in case err of
           Some e \<Rightarrow> (([], Some (Errorf_w ''failed to scan album: '' e)), s')
         | None \<Rightarrow> scan_rows rows (albums @ [row]) s')"

text \<open>The part the three list queries share after \<^verbatim>\<open>db.Query\<close> succeeded.\<close>

definition collect_rows ::
  "album list \<Rightarrow> PostgresDB \<Rightarrow> (album list \<times> go_error option) \<times> PostgresDB" where
  "collect_rows rows s =
     (let ((albums, err), s1) = scan_rows rows [] s
      in case err of
           Some e \<Rightarrow> (([], Some e), s1)
         | None \<Rightarrow>
             (let (err, s2) = driver_call s1
              in case err of
                   Some e \<Rightarrow> (([], Some (Errorf_w ''rows iteration error: '' e)), s2)
                 | None \<Rightarrow> ((albums, None), s2)))"

definition Postgres_GetAll :: "PostgresDB \<Rightarrow> (album list \<times> go_error option) \<times> PostgresDB" where
  "Postgres_GetAll s =
     (let ((rows, err), s1) = Query (\<lambda>r. True) CreatedAt s
      in case err of
           Some e \<Rightarrow> (([], Some (Errorf_w ''failed to get albums: '' e)), s1)
         | None \<Rightarrow> collect_rows rows s1)"

definition Postgres_GetByID ::
  "string \<Rightarrow> PostgresDB \<Rightarrow> (album option \<times> go_error option) \<times> PostgresDB" where
  "Postgres_GetByID id' s =
     (let ((album, err), s1) = QueryRow_by_id id' s
      in if err = Some ErrNoRows then ((None, Some (ErrorString ''album not found'')), s1)
         else case err of
                Some e \<Rightarrow> ((None, Some (Errorf_w ''failed to get album: '' e)), s1)
              | None \<Rightarrow> ((album, None), s1))"

text \<open>\<^verbatim>\<open>generateID\<close>: the decimal rendering of \<^verbatim>\<open>time.Now().UnixNano()\<close>.\<close>

definition generateID :: "'a sys_clock_scheme \<Rightarrow> string \<times> 'a sys_clock_scheme" where
  "generateID s = (let (t, s') = time_Now s in (Sprintf_d t, s'))"

definition Postgres_Create ::
  "album \<Rightarrow> PostgresDB \<Rightarrow> (album \<times> go_error option) \<times> PostgresDB" where
  "Postgres_Create album s =
     (let (id', s1) = generateID s;
          (created, s2) = time_Now s1;
          (updated, s3) = time_Now s2;
          album' = album\<lparr>ID := id', CreatedAt := created, UpdatedAt := updated\<rparr>;
          (err, s4) = Exec_insert album' s3
      in case err of
           Some e \<Rightarrow> ((album', Some (Errorf_w ''failed to create album: '' e)), s4)
         | None \<Rightarrow> ((album', None), s4))"

definition Postgres_Update ::
  "album \<Rightarrow> PostgresDB \<Rightarrow> (album \<times> go_error option) \<times> PostgresDB" where
  "Postgres_Update album s =
     (let (updated, s1) = time_Now s;
          album' = album\<lparr>UpdatedAt := updated\<rparr>;
          ((result, err), s2) = Exec_update album' s1
      in case err of
           Some e \<Rightarrow> ((album', Some (Errorf_w ''failed to update album: '' e)), s2)
         | None \<Rightarrow>
             (let ((rowsAffected, err), s3) = RowsAffected result s2
              in case err of
                   Some e \<Rightarrow> ((album', Some (Errorf_w ''updating rows error: '' e)), s3)
                 | None \<Rightarrow>
                     if rowsAffected = 0
                     then ((album', Some (ErrorString (''album with ID '' @ ID album' @ '' not found''))), s3)
                     else ((album', None), s3)))"

definition Postgres_Delete :: "string \<Rightarrow> PostgresDB \<Rightarrow> go_error option \<times> PostgresDB" where
  "Postgres_Delete id' s =
     (let ((result, err), s1) = Exec_delete id' s
      in case err of
           Some e \<Rightarrow> (Some (Errorf_w ''failed to delete album: '' e), s1)
         | None \<Rightarrow>
             (let ((rowsAffected, err), s2) = RowsAffected result s1
              in case err of
                   Some e \<Rightarrow> (Some (Errorf_w ''deleting rows error: '' e), s2)
                 | None \<Rightarrow>
                     if rowsAffected = 0
                     then (Some (ErrorString (''album with ID '' @ id' @ '' not found'')), s2)
                     else (None, s2)))"

definition Postgres_GetByArtist ::
  "string \<Rightarrow> PostgresDB \<Rightarrow> (album list \<times> go_error option) \<times> PostgresDB" where
  "Postgres_GetByArtist artist s =
     (let ((rows, err), s1) = Query (\<lambda>r. Artist r = artist) Year s
      in case err of
           Some e \<Rightarrow> (([], Some (Errorf_w ''failed to get albums by artist: '' e)), s1)
         | None \<Rightarrow> collect_rows rows s1)"

definition Postgres_GetInStock :: "PostgresDB \<Rightarrow> (album list \<times> go_error option) \<times> PostgresDB" where
  "Postgres_GetInStock s =
     (let ((rows, err), s1) = Query (\<lambda>r. InStock r) CreatedAt s
      in case err of
           Some e \<Rightarrow> (([], Some (Errorf_w ''failed to get albums: '' e)), s1)
         | None \<Rightarrow> collect_rows rows s1)"

text \<open>\<^verbatim>\<open>NewPostgresAlbumRepository\<close>.\<close>

definition NewPostgresAlbumRepository :: "PostgresDB AlbumRepository" where
  "NewPostgresAlbumRepository =
     \<lparr>GetAll = Postgres_GetAll,
      GetByID = Postgres_GetByID,
      Create = Postgres_Create,
      Update = Postgres_Update,
      Delete = Postgres_Delete,
      GetByArtist = Postgres_GetByArtist,
      GetInStock = Postgres_GetInStock\<rparr>"

section \<open>In-memory store: \<^verbatim>\<open>MemoryAlbumRepository.Create\<close>\<close>

record MemoryAlbumRepository = sys_clock +
  mem_albums :: "album list"

definition Memory_Create ::
  "album \<Rightarrow> MemoryAlbumRepository \<Rightarrow> (album \<times> go_error option) \<times> MemoryAlbumRepository" where
  "Memory_Create album r =
     (let (id', r1) = generateID r;
          (created, r2) = time_Now r1;
          (updated, r3) = time_Now r2;
          album' = album\<lparr>ID := id', CreatedAt := created, UpdatedAt := updated\<rparr>
      in ((album', None), r3\<lparr>mem_albums := mem_albums r3 @ [album']\<rparr>))"

section \<open>Business service (package service)\<close>

definition CreateAlbum ::
  "'s AlbumRepository \<Rightarrow> album \<Rightarrow> 's \<Rightarrow> (album \<times> go_error option) \<times> 's" where
  "CreateAlbum repo album s =
     (if Title album = '''' then ((album, Some (ErrorString ''title cannot be empty'')), s)
      else if Price album < 0 then ((album, Some (ErrorString ''price cannot be negative'')), s)
      else Create repo album s)"

text \<open>
  \<^verbatim>\<open>existingAlbum.CreatedAt\<close> dereferences the pointer the repository returned; a
  \<^verbatim>\<open>nil\<close> pointer returned without an error makes the call panic.
\<close>

definition UpdateAlbum ::
  "'s AlbumRepository \<Rightarrow> album \<Rightarrow> 's \<Rightarrow> (album \<times> go_error option) \<times> 's" where
  "UpdateAlbum repo album s =
     (if ID album = '''' then ((album, Some (ErrorString ''id cannot be empty'')), s)
      else if Title album = '''' then ((album, Some (ErrorString ''title cannot be empty'')), s)
      else if Price album < 0 then ((album, Some (ErrorString ''price cannot be negative'')), s)
      else
        (let ((existingAlbum, err), s1) = GetByID repo (ID album) s
         in case err of
              Some e \<Rightarrow> ((album, Some (Errorf_w ''album not found '' e)), s1)
            | None \<Rightarrow>
                (case existingAlbum of
                   None \<Rightarrow> ((album, Some (Panic ''nil pointer dereference'')), s1)
                 | Some existing \<Rightarrow>
                     Update repo (album\<lparr>CreatedAt := CreatedAt existing\<rparr>) s1)))"

section \<open>Wiring (cmd/main.go, cmd/api/main.go)\<close>

text \<open>
  Both entry points build the service over the decorator over the PostgreSQL store:
  \<^verbatim>\<open>cachedRepo := repository.NewCachedAlbumRepository(postgresRepo, redisClient)\<close>.
\<close>

definition cachedRepo :: "json_codec \<Rightarrow> PostgresDB cached_state AlbumRepository" where
  "cachedRepo J = NewCachedAlbumRepository J NewPostgresAlbumRepository"

section \<open>Vocabulary of the properties\<close>

text \<open>The cache commands an operation has detached: those of the goroutines it added.\<close>

definition new_ops :: "'s cached_state \<Rightarrow> 's cached_state \<Rightarrow> cache_op list" where
  "new_ops w w' = concat (drop (length (goroutines w)) (goroutines w'))"


text \<open>No detached goroutine has a command left that addresses the key.\<close>

definition untouched :: "string \<Rightarrow> cache_op list list \<Rightarrow> bool" where
  "untouched key gs = (\<forall>g\<in>set gs. \<forall>op\<in>set g. op_key op \<noteq> key)"

text \<open>
  The key holds nothing or the payload \<open>d\<close>, and every \<^verbatim>\<open>Set\<close> still to run on the key
  carries \<open>d\<close>.
\<close>

definition only_payload :: "string \<Rightarrow> string option \<Rightarrow> 's cached_state \<Rightarrow> bool" where
  "only_payload key d w =
     ((case kv (redis w) key of None \<Rightarrow> True | Some (v, t) \<Rightarrow> Some v = d) \<and>
      (\<forall>g\<in>set (goroutines w). \<forall>op\<in>set g.
         case op of CacheSet k v t \<Rightarrow> k = key \<longrightarrow> Some v = d | CacheDel k \<Rightarrow> True))"


text \<open>The next \<open>n\<close> calls into the database driver succeed.\<close>

definition healthy :: "nat \<Rightarrow> string option list \<Rightarrow> bool" where
  "healthy n fs = (\<forall>f\<in>set (take n fs). f = None)"

text \<open>Equality of two albums up to the identifier and the two timestamps.\<close>

definition same_content :: "album \<Rightarrow> album \<Rightarrow> bool" where
  "same_content a b =
     (Title a = Title b \<and> Artist a = Artist b \<and> Price a = Price b \<and> Year a = Year b \<and>
      Genre a = Genre b \<and> Condition a = Condition b \<and> InStock a = InStock b)"

section \<open>Data of the closed examples\<close>

text \<open>
  A codec given by finite tables stands for the JSON library in the examples; a clock
  that advances by one nanosecond per reading; the two albums of the specification's
  scenario and of the seed data; a shop with one stored album.
\<close>

definition table_codec :: "(album \<times> string) list \<Rightarrow> (album list \<times> string) list \<Rightarrow> json_codec" where
  "table_codec one many =
     \<lparr>Marshal_album = map_of one,
      Marshal_albums = map_of many,
      Unmarshal_album = map_of (map prod.swap one),
      Unmarshal_albums = map_of (map prod.swap many)\<rparr>"

definition ticking :: "nat \<Rightarrow> int" where
  "ticking n = 1000 + int n"

definition time_out :: album where
  "time_out =
     \<lparr>ID = '''', Title = ''Time Out'', Artist = ''Dave Brubeck'', Price = 3999 / 100,
      Year = 1959, Genre = ''Cool Jazz'', Condition = ''fair'', InStock = False,
      CreatedAt = 0, UpdatedAt = 0\<rparr>"

definition blue_train :: album where
  "blue_train =
     \<lparr>ID = ''1'', Title = ''Blue Train'', Artist = ''John Coltrane'', Price = 5699 / 100,
      Year = 1957, Genre = ''Hard Bop'', Condition = ''mint'', InStock = True,
      CreatedAt = 0, UpdatedAt = 0\<rparr>"

definition shop_db :: "string option list \<Rightarrow> PostgresDB" where
  "shop_db faults =
     \<lparr>clock = ticking, clock_reads = 0, albums_table = [blue_train], db_faults = faults\<rparr>"

definition shop_codec :: json_codec where
  "shop_codec =
     table_codec
       [(blue_train, ''{blue train}''),
        (time_out\<lparr>ID := ''1000'', CreatedAt := 1001, UpdatedAt := 1002\<rparr>, ''{time out}'')]
       [([blue_train], ''[{blue train}]'')]"

definition shop ::
  "string option list \<Rightarrow> (string \<times> string \<times> int) list \<Rightarrow> string option list \<Rightarrow>
     PostgresDB cached_state" where
  "shop db_script entries cache_script =
     \<lparr>store = shop_db db_script,
      redis = \<lparr>kv = map_of entries, ttl = 0, redis_faults = cache_script\<rparr>,
      goroutines = []\<rparr>"

section \<open>Lemmas about the model\<close>

subsection \<open>Cache client\<close>

lemma Redis_Get_cases:
  "Redis_Get key r =
     (case next_fault (redis_faults r) of
        (Some m, rest) \<Rightarrow>
          (('''', Some (Errorf_w ''getting from Redis error: '' (DriverError m))),
           r\<lparr>redis_faults := rest\<rparr>)
      | (None, rest) \<Rightarrow>
          ((case kv r key of None \<Rightarrow> '''' | Some (v, t) \<Rightarrow> v, None),
           r\<lparr>redis_faults := rest\<rparr>))"
  by (auto simp: Redis_Get_def client_Get_def Let_def split: prod.splits option.splits)

lemma Redis_Get_error_empty:
  "snd (fst (Redis_Get key r)) \<noteq> None \<Longrightarrow> fst (fst (Redis_Get key r)) = ''''"
  by (simp add: Redis_Get_cases split: prod.splits option.splits)

subsection \<open>Detached goroutines: a step and a schedule\<close>

lemma run_op_cases:
  "run_op op r =
     (case next_fault (redis_faults r) of
        (Some m, rest) \<Rightarrow> r\<lparr>redis_faults := rest\<rparr>
      | (None, rest) \<Rightarrow>
          (case op of
             CacheSet key val expiry \<Rightarrow>
               r\<lparr>redis_faults := rest,
                 kv := (kv r)(key \<mapsto> (val, if expiry = 0 then ttl r else expiry))\<rparr>
           | CacheDel key \<Rightarrow> r\<lparr>redis_faults := rest, kv := (kv r)(key := None)\<rparr>))"
  by (auto simp: run_op_def Redis_Set_def Redis_Delete_def client_Set_def client_Del_def Let_def
           split: prod.splits option.splits cache_op.splits)

lemma run_op_other_key: "op_key op \<noteq> key \<Longrightarrow> kv (run_op op r) key = kv r key"
  by (cases op) (auto simp: run_op_cases split: prod.splits option.splits)

lemma store_step [simp]: "store (step i w) = store w"
  by (simp add: step_def split: list.splits)

lemma store_run_schedule [simp]: "store (run_schedule sched w) = store w"
  by (induction sched arbitrary: w) simp_all

lemma step_goroutines_subset:
  "g \<in> set (goroutines (step i w)) \<Longrightarrow> \<exists>g'\<in>set (goroutines w). set g \<subseteq> set g'"
proof (cases "i < length (goroutines w)")
  case False
  assume "g \<in> set (goroutines (step i w))"
  with False show ?thesis by (auto simp: step_def)
next
  case True
  assume g: "g \<in> set (goroutines (step i w))"
  show ?thesis
  proof (cases "goroutines w ! i")
    case Nil
    with g True show ?thesis by (auto simp: step_def)
  next
    case (Cons op rest)
    with g True have "g \<in> set ((goroutines w)[i := rest])" by (simp add: step_def)
    then have "g = rest \<or> g \<in> set (goroutines w)"
      using set_update_subset_insert [of "goroutines w" i rest] by auto
    then show ?thesis
    proof
      assume "g = rest"
      moreover have "goroutines w ! i \<in> set (goroutines w)" using True by simp
      ultimately show ?thesis using Cons by (intro bexI [of _ "goroutines w ! i"]) auto
    next
      assume "g \<in> set (goroutines w)"
      then show ?thesis by blast
    qed
  qed
qed

lemma step_untouched:
  assumes "untouched key (goroutines w)"
  shows "untouched key (goroutines (step i w)) \<and> kv (redis (step i w)) key = kv (redis w) key"
proof
  show "untouched key (goroutines (step i w))"
    unfolding untouched_def
  proof (intro ballI)
    fix g op assume "g \<in> set (goroutines (step i w))" "op \<in> set g"
    then obtain g' where "g' \<in> set (goroutines w)" "op \<in> set g'"
      using step_goroutines_subset by blast
    with assms show "op_key op \<noteq> key" by (auto simp: untouched_def)
  qed
next
  show "kv (redis (step i w)) key = kv (redis w) key"
  proof (cases "i < length (goroutines w)")
    case False
    then show ?thesis by (simp add: step_def)
  next
    case True
    show ?thesis
    proof (cases "goroutines w ! i")
      case Nil
      with True show ?thesis by (simp add: step_def)
    next
      case (Cons op rest)
      have "goroutines w ! i \<in> set (goroutines w)" using True by simp
      with Cons assms have "op_key op \<noteq> key" by (auto simp: untouched_def)
      with True Cons show ?thesis by (simp add: step_def run_op_other_key)
    qed
  qed
qed

lemma run_schedule_untouched:
  "untouched key (goroutines w) \<Longrightarrow>
   untouched key (goroutines (run_schedule sched w)) \<and>
   kv (redis (run_schedule sched w)) key = kv (redis w) key"
proof (induction sched arbitrary: w)
  case Nil
  then show ?case by simp
next
  case (Cons i sched)
  from step_untouched [OF Cons.prems, of i]
  have "untouched key (goroutines (step i w))" and "kv (redis (step i w)) key = kv (redis w) key"
    by simp_all
  with Cons.IH [of "step i w"] show ?case by simp
qed

subsection \<open>Record store\<close>

lemma pg_fields [simp]:
  "GetAll NewPostgresAlbumRepository = Postgres_GetAll"
  "GetByID NewPostgresAlbumRepository = Postgres_GetByID"
  "Create NewPostgresAlbumRepository = Postgres_Create"
  "Update NewPostgresAlbumRepository = Postgres_Update"
  "Delete NewPostgresAlbumRepository = Postgres_Delete"
  "GetByArtist NewPostgresAlbumRepository = Postgres_GetByArtist"
  "GetInStock NewPostgresAlbumRepository = Postgres_GetInStock"
  by (simp_all add: NewPostgresAlbumRepository_def)

lemma cached_fields [simp]:
  "GetByID (NewCachedAlbumRepository J repo) = Cached_GetByID J repo"
  "Create (NewCachedAlbumRepository J repo) = Cached_Create J repo"
  "Update (NewCachedAlbumRepository J repo) = Cached_Update J repo"
  "Delete (NewCachedAlbumRepository J repo) = Cached_Delete J repo"
  by (simp_all add: NewCachedAlbumRepository_def)

lemma driver_call_cases:
  "driver_call s =
     (case db_faults s of
        [] \<Rightarrow> (None, s\<lparr>db_faults := []\<rparr>)
      | f # rest \<Rightarrow> (map_option DriverError f, s\<lparr>db_faults := rest\<rparr>))"
  by (simp add: driver_call_def next_fault_def split: list.splits)

lemma driver_call_table [simp]: "albums_table (snd (driver_call s)) = albums_table s"
  by (simp add: driver_call_cases split: list.splits)

lemma driver_call_clock [simp]:
  "clock (snd (driver_call s)) = clock s" "clock_reads (snd (driver_call s)) = clock_reads s"
  by (simp_all add: driver_call_cases split: list.splits)

lemma Postgres_GetByID_cases:
  "fst (Postgres_GetByID id' s) =
     (case fst (driver_call s) of
        Some e \<Rightarrow> (None, Some (Errorf_w ''failed to get album: '' e))
      | None \<Rightarrow>
          (case find (\<lambda>r. ID r = id') (albums_table s) of
             None \<Rightarrow> (None, Some (ErrorString ''album not found''))
           | Some r \<Rightarrow> (Some r, None)))"
  by (auto simp: Postgres_GetByID_def QueryRow_by_id_def Let_def driver_call_cases
           split: prod.splits option.splits list.splits)

lemma Postgres_GetByID_state:
  "snd (Postgres_GetByID id' s) = snd (driver_call s)"
  by (auto simp: Postgres_GetByID_def QueryRow_by_id_def Let_def
           split: prod.splits option.splits)


lemma digits_nonempty: "digits n \<noteq> []"
  by (subst digits.simps) simp

lemma Sprintf_d_nonempty: "Sprintf_d n \<noteq> []"
  by (simp add: Sprintf_d_def digits_nonempty)

lemma Postgres_Create_album:
  "fst (fst (Postgres_Create album s)) =
     album\<lparr>ID := Sprintf_d (clock s (clock_reads s)),
           CreatedAt := clock s (Suc (clock_reads s)),
           UpdatedAt := clock s (Suc (Suc (clock_reads s)))\<rparr>"
  by (simp add: Postgres_Create_def generateID_def time_Now_def Let_def case_prod_beta
           split: option.splits)

lemma Memory_Create_album:
  "fst (fst (Memory_Create album r)) =
     album\<lparr>ID := Sprintf_d (clock r (clock_reads r)),
           CreatedAt := clock r (Suc (clock_reads r)),
           UpdatedAt := clock r (Suc (Suc (clock_reads r)))\<rparr>"
  by (simp add: Memory_Create_def generateID_def time_Now_def Let_def case_prod_beta)

lemma Cached_Create_album:
  "fst (fst (Cached_Create J repo album w)) = fst (fst (Create repo album (store w)))"
  by (simp add: Cached_Create_def Let_def case_prod_beta split: option.splits)

lemma Postgres_Update_cases:
  "Postgres_Update album s =
     (let album' = album\<lparr>UpdatedAt := clock s (clock_reads s)\<rparr>;
          s1 = s\<lparr>clock_reads := Suc (clock_reads s)\<rparr>
      in case fst (driver_call s1) of
           Some e \<Rightarrow> ((album', Some (Errorf_w ''failed to update album: '' e)), snd (driver_call s1))
         | None \<Rightarrow>
             (let s2 = (snd (driver_call s1))\<lparr>albums_table :=
                   map (\<lambda>r. if ID r = ID album
                             then r\<lparr>Title := Title album, Artist := Artist album,
                                    Price := numeric_10_2 (Price album), Year := Year album,
                                    Genre := Genre album, Condition := Condition album,
                                    InStock := InStock album,
                                    UpdatedAt := timestamptz (clock s (clock_reads s))\<rparr>
                             else r) (albums_table s)\<rparr>
              in case fst (driver_call s2) of
                   Some e \<Rightarrow> ((album', Some (Errorf_w ''updating rows error: '' e)), snd (driver_call s2))
                 | None \<Rightarrow>
                     if (\<forall>r\<in>set (albums_table s). ID r \<noteq> ID album)
                     then ((album', Some (ErrorString (''album with ID '' @ ID album @ '' not found''))),
                           snd (driver_call s2))
                     else ((album', None), snd (driver_call s2))))"
  by (auto simp: Postgres_Update_def Exec_update_def RowsAffected_def time_Now_def Let_def
        case_prod_beta filter_empty_conv split: option.splits cong: if_cong)

lemma Postgres_Delete_cases:
  "Postgres_Delete id' s =
     (case fst (driver_call s) of
        Some e \<Rightarrow> (Some (Errorf_w ''failed to delete album: '' e), snd (driver_call s))
      | None \<Rightarrow>
          (let s1 = (snd (driver_call s))\<lparr>albums_table := filter (\<lambda>r. ID r \<noteq> id') (albums_table s)\<rparr>
           in case fst (driver_call s1) of
                Some e \<Rightarrow> (Some (Errorf_w ''deleting rows error: '' e), snd (driver_call s1))
              | None \<Rightarrow>
                  if (\<forall>r\<in>set (albums_table s). ID r \<noteq> id')
                  then (Some (ErrorString (''album with ID '' @ id' @ '' not found'')), snd (driver_call s1))
                  else (None, snd (driver_call s1))))"
  by (auto simp: Postgres_Delete_def Exec_delete_def RowsAffected_def Let_def
        case_prod_beta filter_empty_conv split: option.splits)

lemma find_Some_ID: "find (\<lambda>r. ID r = i) xs = Some x \<Longrightarrow> i \<in> ID ` set xs"
  by (auto simp: find_Some_iff)

lemma healthy_1: "healthy (Suc 0) (db_faults s) \<longleftrightarrow> fst (driver_call s) = None"
  by (cases "db_faults s") (auto simp: healthy_def driver_call_cases)

lemma healthy_2:
  "healthy 2 (db_faults s) \<longleftrightarrow>
     fst (driver_call s) = None \<and> fst (driver_call (snd (driver_call s))) = None"
proof (cases "db_faults s")
  case Nil
  then show ?thesis by (simp add: healthy_def driver_call_cases)
next
  case (Cons f fs)
  then show ?thesis
    by (cases fs) (auto simp: healthy_def driver_call_cases numeral_2_eq_2)
qed

lemma driver_call_faults_upd [simp]:
  "fst (driver_call (s\<lparr>albums_table := t\<rparr>)) = fst (driver_call s)"
  "fst (driver_call (s\<lparr>clock_reads := n\<rparr>)) = fst (driver_call s)"
  "db_faults (snd (driver_call (s\<lparr>albums_table := t\<rparr>))) = db_faults (snd (driver_call s))"
  "db_faults (snd (driver_call (s\<lparr>clock_reads := n\<rparr>))) = db_faults (snd (driver_call s))"
  by (simp_all add: driver_call_cases split: list.splits)

lemma driver_call_snd_upd:
  "snd (driver_call (s\<lparr>albums_table := t\<rparr>)) = (snd (driver_call s))\<lparr>albums_table := t\<rparr>"
  "snd (driver_call (s\<lparr>clock_reads := n\<rparr>)) = (snd (driver_call s))\<lparr>clock_reads := n\<rparr>"
  by (simp_all add: driver_call_cases split: list.splits)

lemma absent_conv: "(\<forall>r\<in>set xs. ID r \<noteq> i) \<longleftrightarrow> i \<notin> set (map ID xs)"
  by auto

lemma Postgres_GetByID_frame [simp]:
  "albums_table (snd (Postgres_GetByID id' s)) = albums_table s"
  "clock (snd (Postgres_GetByID id' s)) = clock s"
  "clock_reads (snd (Postgres_GetByID id' s)) = clock_reads s"
  by (simp_all add: Postgres_GetByID_state)

lemma Postgres_GetByID_faults:
  "db_faults s = [] \<Longrightarrow> db_faults (snd (Postgres_GetByID id' s)) = []"
  by (simp add: Postgres_GetByID_state driver_call_cases)

lemma in_ID_image: "r \<in> set xs \<Longrightarrow> ID r = i \<Longrightarrow> i \<in> ID ` set xs"
  by auto

lemma Postgres_Update_table:
  "albums_table (snd (Postgres_Update album s)) =
     (if fst (driver_call s) = None
      then map (\<lambda>r. if ID r = ID album
                     then r\<lparr>Title := Title album, Artist := Artist album,
                            Price := numeric_10_2 (Price album), Year := Year album,
                            Genre := Genre album, Condition := Condition album,
                            InStock := InStock album,
                            UpdatedAt := timestamptz (clock s (clock_reads s))\<rparr>
                     else r) (albums_table s)
      else albums_table s)"
  by (auto simp: Postgres_Update_cases Let_def driver_call_snd_upd split: option.splits)

lemma Postgres_Update_keeps:
  "map CreatedAt (albums_table (snd (Postgres_Update album s))) = map CreatedAt (albums_table s)"
  "map ID (albums_table (snd (Postgres_Update album s))) = map ID (albums_table s)"
  by (simp_all add: Postgres_Update_table o_def cong: if_cong)

lemma Postgres_Update_absent:
  "ID album \<notin> set (map ID (albums_table s)) \<Longrightarrow>
   albums_table (snd (Postgres_Update album s)) = albums_table s \<and>
   snd (fst (Postgres_Update album s)) \<noteq> None"
proof
  assume a: "ID album \<notin> set (map ID (albums_table s))"
  then have "map (\<lambda>r. if ID r = ID album
                     then r\<lparr>Title := Title album, Artist := Artist album,
                            Price := numeric_10_2 (Price album), Year := Year album,
                            Genre := Genre album, Condition := Condition album,
                            InStock := InStock album,
                            UpdatedAt := timestamptz (clock s (clock_reads s))\<rparr>
                     else r) (albums_table s) = albums_table s"
    by (intro map_idI) (auto dest: in_ID_image)
  then show "albums_table (snd (Postgres_Update album s)) = albums_table s"
    by (simp add: Postgres_Update_table)
  from a show "snd (fst (Postgres_Update album s)) \<noteq> None"
    unfolding absent_conv [symmetric]
    by (auto simp: Postgres_Update_cases Let_def split: option.splits)
qed

lemma Postgres_Update_ok:
  assumes "snd (fst (Postgres_Update album s)) = None"
  shows "ID album \<in> set (map ID (albums_table s))"
    and "\<forall>r\<in>set (albums_table (snd (Postgres_Update album s))).
           ID r = ID album \<longrightarrow> UpdatedAt r = timestamptz (clock s (clock_reads s))"
    and "fst (fst (Postgres_Update album s)) = album\<lparr>UpdatedAt := clock s (clock_reads s)\<rparr>"
proof -
  from assms have ok: "fst (driver_call s) = None"
    by (auto simp: Postgres_Update_cases Let_def split: option.splits)
  from assms show "ID album \<in> set (map ID (albums_table s))"
    by (auto simp: Postgres_Update_cases Let_def intro: in_ID_image split: option.splits if_splits)
  from ok show "\<forall>r\<in>set (albums_table (snd (Postgres_Update album s))).
           ID r = ID album \<longrightarrow> UpdatedAt r = timestamptz (clock s (clock_reads s))"
    by (auto simp: Postgres_Update_table split: if_splits)
  show "fst (fst (Postgres_Update album s)) = album\<lparr>UpdatedAt := clock s (clock_reads s)\<rparr>"
    by (auto simp: Postgres_Update_cases Let_def split: option.splits)
qed

lemma Postgres_Update_healthy:
  "db_faults s = [] \<Longrightarrow> ID album \<in> set (map ID (albums_table s)) \<Longrightarrow>
   snd (fst (Postgres_Update album s)) = None"
  unfolding absent_conv [symmetric]
  by (auto simp: Postgres_Update_cases Let_def driver_call_cases split: option.splits)

subsection \<open>Decorator over the record store\<close>

lemma Redis_Get_kv [simp]: "kv (snd (Redis_Get key r)) = kv r"
  by (simp add: Redis_Get_cases split: prod.splits option.splits)

lemma Cached_GetByID_store:
  "store (snd (Cached_GetByID J repo id' w)) = store w \<or>
   store (snd (Cached_GetByID J repo id' w)) = snd (GetByID repo id' (store w))"
  by (auto simp: Cached_GetByID_def Let_def case_prod_beta go_def split: option.splits)

lemma Cached_GetByID_kv [simp]:
  "kv (redis (snd (Cached_GetByID J repo id' w))) = kv (redis w)"
  by (auto simp: Cached_GetByID_def Let_def case_prod_beta go_def split: option.splits)

lemma Cached_GetByID_pg_frame [simp]:
  "albums_table (store (snd (Cached_GetByID J NewPostgresAlbumRepository id' w))) =
     albums_table (store w)"
  "clock (store (snd (Cached_GetByID J NewPostgresAlbumRepository id' w))) = clock (store w)"
  "clock_reads (store (snd (Cached_GetByID J NewPostgresAlbumRepository id' w))) =
     clock_reads (store w)"
  using Cached_GetByID_store [of J NewPostgresAlbumRepository id' w] by auto

lemma Cached_GetByID_pg_faults:
  "db_faults (store w) = [] \<Longrightarrow>
   db_faults (store (snd (Cached_GetByID J NewPostgresAlbumRepository id' w))) = []"
  using Cached_GetByID_store [of J NewPostgresAlbumRepository id' w]
  by (auto simp: Postgres_GetByID_faults)

lemma Cached_Update_pg:
  "fst (Cached_Update J NewPostgresAlbumRepository album w) =
     fst (Postgres_Update album (snd (Postgres_GetByID (ID album) (store w))))"
  "store (snd (Cached_Update J NewPostgresAlbumRepository album w)) =
     snd (Postgres_Update album (snd (Postgres_GetByID (ID album) (store w))))"
  "kv (redis (snd (Cached_Update J NewPostgresAlbumRepository album w))) = kv (redis w)"
  "snd (fst (Cached_Update J NewPostgresAlbumRepository album w)) \<noteq> None \<Longrightarrow>
     goroutines (snd (Cached_Update J NewPostgresAlbumRepository album w)) = goroutines w"
  by (auto simp: Cached_Update_def Let_def case_prod_beta go_def prod_eq_iff split: option.splits)

lemma cachedRepo_fields [simp]:
  "GetByID (cachedRepo J) = Cached_GetByID J NewPostgresAlbumRepository"
  "Create (cachedRepo J) = Cached_Create J NewPostgresAlbumRepository"
  "Update (cachedRepo J) = Cached_Update J NewPostgresAlbumRepository"
  "Delete (cachedRepo J) = Cached_Delete J NewPostgresAlbumRepository"
  by (simp_all add: cachedRepo_def)

lemma Postgres_GetByID_result:
  "snd (fst (Postgres_GetByID id' s)) = None \<longleftrightarrow> fst (fst (Postgres_GetByID id' s)) \<noteq> None"
  by (auto simp: Postgres_GetByID_cases split: option.splits)

lemma Postgres_GetByID_absent:
  "id' \<notin> set (map ID (albums_table s)) \<Longrightarrow> snd (fst (Postgres_GetByID id' s)) \<noteq> None"
  by (auto simp: Postgres_GetByID_cases dest: find_Some_ID split: option.splits)

lemma Postgres_GetByID_present:
  "db_faults s = [] \<Longrightarrow> id' \<in> set (map ID (albums_table s)) \<Longrightarrow>
   \<exists>r. fst (Postgres_GetByID id' s) = (Some r, None) \<and> r \<in> set (albums_table s) \<and> ID r = id'"
  by (auto simp: Postgres_GetByID_cases driver_call_cases find_None_iff find_Some_iff
           split: option.splits)

lemma Cached_GetByID_pg_result:
  "snd (fst (Cached_GetByID J NewPostgresAlbumRepository id' w)) = None \<Longrightarrow>
   fst (fst (Cached_GetByID J NewPostgresAlbumRepository id' w)) \<noteq> None"
  using Postgres_GetByID_result [of id' "store w"]
  by (auto simp: Cached_GetByID_def Let_def case_prod_beta split: option.splits if_splits)

lemma Cached_GetByID_pg_absent:
  "id' \<notin> set (map ID (albums_table (store w))) \<Longrightarrow>
   goroutines (snd (Cached_GetByID J NewPostgresAlbumRepository id' w)) = goroutines w"
  using Postgres_GetByID_absent [of id' "store w"]
  by (auto simp: Cached_GetByID_def Let_def case_prod_beta split: option.splits)

lemma Cached_GetByID_pg_healthy:
  "db_faults (store w) = [] \<Longrightarrow> id' \<in> set (map ID (albums_table (store w))) \<Longrightarrow>
   snd (fst (Cached_GetByID J NewPostgresAlbumRepository id' w)) = None"
  using Postgres_GetByID_present [of "store w" id']
  by (auto simp: Cached_GetByID_def Let_def case_prod_beta split: option.splits)

lemma Cached_GetByID_pg_absent_error:
  "db_faults (store w) = [] \<Longrightarrow> id' \<notin> set (map ID (albums_table (store w))) \<Longrightarrow>
   snd (fst (Cached_GetByID J NewPostgresAlbumRepository id' w)) \<in>
     {None, Some (ErrorString ''album not found'')}"
  by (auto simp: Cached_GetByID_def Let_def case_prod_beta Postgres_GetByID_cases
        driver_call_cases dest: find_Some_ID split: option.splits)

lemma UpdateAlbum_cases:
  "UpdateAlbum (cachedRepo J) album w =
     (if ID album = '''' then ((album, Some (ErrorString ''id cannot be empty'')), w)
      else if Title album = '''' then ((album, Some (ErrorString ''title cannot be empty'')), w)
      else if Price album < 0 then ((album, Some (ErrorString ''price cannot be negative'')), w)
      else
        (case fst (Cached_GetByID J NewPostgresAlbumRepository (ID album) w) of
           (existing, Some e) \<Rightarrow>
             ((album, Some (Errorf_w ''album not found '' e)),
              snd (Cached_GetByID J NewPostgresAlbumRepository (ID album) w))
         | (None, None) \<Rightarrow>
             ((album, Some (Panic ''nil pointer dereference'')),
              snd (Cached_GetByID J NewPostgresAlbumRepository (ID album) w))
         | (Some existing, None) \<Rightarrow>
             Cached_Update J NewPostgresAlbumRepository (album\<lparr>CreatedAt := CreatedAt existing\<rparr>)
               (snd (Cached_GetByID J NewPostgresAlbumRepository (ID album) w))))"
  by (auto simp: UpdateAlbum_def Let_def case_prod_beta split: option.splits prod.splits)

subsection \<open>Invariants of schedules\<close>

lemma step_cases:
  obtains (idle) "step i w = w"
  | (run) op rest where "i < length (goroutines w)" "goroutines w ! i = op # rest"
      "step i w = w\<lparr>redis := run_op op (redis w), goroutines := (goroutines w)[i := rest]\<rparr>"
  by (cases "i < length (goroutines w)"; cases "goroutines w ! i") (auto simp: step_def)

lemma run_op_kv:
  "kv (run_op op r) key =
     (if fst (next_fault (redis_faults r)) \<noteq> None \<or> op_key op \<noteq> key then kv r key
      else case op of
             CacheSet k v t \<Rightarrow> Some (v, if t = 0 then ttl r else t)
           | CacheDel k \<Rightarrow> None)"
  by (cases op) (auto simp: run_op_cases split: prod.splits option.splits)


lemma only_payload_step:
  assumes "only_payload key d w"
  shows "only_payload key d (step i w)"
proof (cases i w rule: step_cases)
  case idle
  with assms show ?thesis by simp
next
  case (run op rest)
  have mem: "op # rest \<in> set (goroutines w)" using run(1,2) by (metis nth_mem)
  have ops: "\<forall>g\<in>set (goroutines (step i w)). \<forall>op\<in>set g.
         case op of CacheSet k v t \<Rightarrow> k = key \<longrightarrow> Some v = d | CacheDel k \<Rightarrow> True"
  proof (intro ballI)
    fix g op' assume "g \<in> set (goroutines (step i w))" "op' \<in> set g"
    then obtain g' where "g' \<in> set (goroutines w)" "op' \<in> set g'"
      using step_goroutines_subset by blast
    with assms show "case op' of CacheSet k v t \<Rightarrow> k = key \<longrightarrow> Some v = d | CacheDel k \<Rightarrow> True"
      by (auto simp: only_payload_def)
  qed
  from assms mem have opok: "case op of CacheSet k v t \<Rightarrow> k = key \<longrightarrow> Some v = d | CacheDel k \<Rightarrow> True"
    by (auto simp: only_payload_def)
  from assms have old: "case kv (redis w) key of None \<Rightarrow> True | Some (v, t) \<Rightarrow> Some v = d"
    by (simp add: only_payload_def)
  have "case kv (run_op op (redis w)) key of None \<Rightarrow> True | Some (v, t) \<Rightarrow> Some v = d"
    using opok old by (cases op) (auto simp: run_op_kv split: option.splits)
  with ops run(3) show ?thesis by (simp add: only_payload_def)
qed

lemma only_payload_run_schedule:
  "only_payload key d w \<Longrightarrow> only_payload key d (run_schedule sched w)"
  by (induction sched arbitrary: w) (simp_all add: only_payload_step)




subsection \<open>Cache keys and dispatched commands\<close>

lemma keys_distinct [simp]:
  "generateCacheKey ''id'' x \<noteq> generateCacheKey ''all'' y"
  "generateCacheKey ''artist'' x \<noteq> generateCacheKey ''all'' y"
  "generateCacheKey ''stock'' x \<noteq> generateCacheKey ''all'' y"
  "generateCacheKey ''artist'' x \<noteq> generateCacheKey ''id'' y"
  "generateCacheKey ''stock'' x \<noteq> generateCacheKey ''id'' y"
  "generateCacheKey ''all'' x \<noteq> generateCacheKey ''id'' y"
  by (simp_all add: generateCacheKey_def)

lemma key_inj [simp]: "generateCacheKey t x = generateCacheKey t y \<longleftrightarrow> x = y"
  by (simp add: generateCacheKey_def)

lemma new_ops_same [simp]: "goroutines w' = goroutines w \<Longrightarrow> new_ops w w' = []"
  by (simp add: new_ops_def)

lemma new_ops_go [simp]: "goroutines w' = goroutines w \<Longrightarrow> new_ops w (go g w') = g"
  by (simp add: new_ops_def go_def)

lemma Cached_Create_effect:
  "fst (Cached_Create J repo album w) = fst (Create repo album (store w))"
  "store (snd (Cached_Create J repo album w)) = snd (Create repo album (store w))"
  "redis (snd (Cached_Create J repo album w)) = redis w"
  "goroutines (snd (Cached_Create J repo album w)) =
     (if snd (fst (Create repo album (store w))) = None
      then goroutines w @
           [[CacheDel (generateCacheKey ''artist'' (Artist (fst (fst (Create repo album (store w)))))),
             CacheDel (generateCacheKey ''stock'' '''')] @
            cacheAlbum J (fst (fst (Create repo album (store w))))]
      else goroutines w)"
  by (auto simp: Cached_Create_def Let_def case_prod_beta go_def invalidateCache_def prod_eq_iff
           split: option.splits)

lemma Cached_Update_effect:
  "fst (Cached_Update J repo album w) =
     fst (Update repo album (snd (GetByID repo (ID album) (store w))))"
  "store (snd (Cached_Update J repo album w)) =
     snd (Update repo album (snd (GetByID repo (ID album) (store w))))"
  "redis (snd (Cached_Update J repo album w)) = redis w"
  "goroutines (snd (Cached_Update J repo album w)) =
     (if snd (fst (Update repo album (snd (GetByID repo (ID album) (store w))))) = None
      then goroutines w @
        [CacheDel (generateCacheKey ''id''
            (ID (fst (fst (Update repo album (snd (GetByID repo (ID album) (store w)))))))) #
         (case fst (fst (GetByID repo (ID album) (store w))) of
            Some old \<Rightarrow> [CacheDel (generateCacheKey ''artist'' (Artist old))]
          | None \<Rightarrow> []) @
         [CacheDel (generateCacheKey ''artist''
            (Artist (fst (fst (Update repo album (snd (GetByID repo (ID album) (store w)))))))),
          CacheDel (generateCacheKey ''stock'' '''')]]
      else goroutines w)"
  by (auto simp: Cached_Update_def Let_def case_prod_beta go_def invalidateCache_def prod_eq_iff
           split: option.splits)

lemma Cached_Delete_effect:
  "fst (Cached_Delete J repo id' w) = fst (Delete repo id' (snd (GetByID repo id' (store w))))"
  "store (snd (Cached_Delete J repo id' w)) = snd (Delete repo id' (snd (GetByID repo id' (store w))))"
  "redis (snd (Cached_Delete J repo id' w)) = redis w"
  "goroutines (snd (Cached_Delete J repo id' w)) =
     (if fst (Delete repo id' (snd (GetByID repo id' (store w)))) = None
      then goroutines w @
        [CacheDel (generateCacheKey ''id'' id') #
         (case fst (fst (GetByID repo id' (store w))) of
            Some a \<Rightarrow> [CacheDel (generateCacheKey ''artist'' (Artist a))]
          | None \<Rightarrow> []) @
         [CacheDel (generateCacheKey ''stock'' '''')]]
      else goroutines w)"
  by (auto simp: Cached_Delete_def Let_def case_prod_beta go_def invalidateCache_def
           split: option.splits)

lemma new_ops_append [simp]: "goroutines w' = goroutines w @ gs \<Longrightarrow> new_ops w w' = concat gs"
  by (simp add: new_ops_def)


lemma read_goroutines:
  "goroutines (snd (Cached_GetAll J repo w)) = goroutines w \<or>
   goroutines (snd (Cached_GetAll J repo w)) =
     goroutines w @
       [populate (Marshal_albums J (fst (fst (GetAll repo (store w)))))
          (generateCacheKey ''all'' '''') time_Minute]"
  "goroutines (snd (Cached_GetByID J repo id' w)) = goroutines w \<or>
   goroutines (snd (Cached_GetByID J repo id' w)) =
     goroutines w @
       [populate (Marshal_ptr J (fst (fst (GetByID repo id' (store w)))))
          (generateCacheKey ''id'' id') (5 * time_Minute)]"
  "goroutines (snd (Cached_GetByArtist J repo artist w)) = goroutines w \<or>
   goroutines (snd (Cached_GetByArtist J repo artist w)) =
     goroutines w @
       [populate (Marshal_albums J (fst (fst (GetByArtist repo artist (store w)))))
          (generateCacheKey ''artist'' artist) (2 * time_Minute)]"
  "goroutines (snd (Cached_GetInStock J repo w)) = goroutines w \<or>
   goroutines (snd (Cached_GetInStock J repo w)) =
     goroutines w @
       [populate (Marshal_albums J (fst (fst (GetInStock repo (store w)))))
          (generateCacheKey ''stock'' '''') (30 * time_Second)]"
  by (auto simp: Cached_GetAll_def Cached_GetByID_def Cached_GetByArtist_def Cached_GetInStock_def
        Let_def case_prod_beta go_def split: option.splits)


lemma untouched_append:
  "untouched key (gs @ [g]) \<longleftrightarrow> untouched key gs \<and> (\<forall>op\<in>set g. op_key op \<noteq> key)"
  by (auto simp: untouched_def)

lemma cacheAlbum_keys:
  "op \<in> set (cacheAlbum J a) \<Longrightarrow> op_key op = generateCacheKey ''id'' (ID a)"
  by (auto simp: cacheAlbum_def Let_def split: option.splits)

lemma write_ops_keys:
  "\<forall>op\<in>set (new_ops w (snd (Cached_Create J repo album w))).
     op_key op \<noteq> generateCacheKey ''all'' ''''"
  "\<forall>op\<in>set (new_ops w (snd (Cached_Update J repo album w))).
     op_key op \<noteq> generateCacheKey ''all'' ''''"
  "\<forall>op\<in>set (new_ops w (snd (Cached_Delete J repo id' w))).
     op_key op \<noteq> generateCacheKey ''all'' ''''"
  by (auto simp: new_ops_def Cached_Create_effect Cached_Update_effect Cached_Delete_effect
           dest: cacheAlbum_keys split: option.splits)

lemma write_untouched:
  assumes "untouched (generateCacheKey ''all'' '''') (goroutines w)"
  shows "untouched (generateCacheKey ''all'' '''') (goroutines (snd (Cached_Create J repo album w)))"
    and "untouched (generateCacheKey ''all'' '''') (goroutines (snd (Cached_Update J repo album w)))"
    and "untouched (generateCacheKey ''all'' '''') (goroutines (snd (Cached_Delete J repo id' w)))"
  using assms
  by (auto simp: untouched_append Cached_Create_effect Cached_Update_effect Cached_Delete_effect
           dest: cacheAlbum_keys split: option.splits)

lemma Cached_GetAll_hit:
  "kv (redis w) (generateCacheKey ''all'' '''') = Some (d, t) \<Longrightarrow> d \<noteq> '''' \<Longrightarrow>
   Unmarshal_albums J d = Some xs \<Longrightarrow> fst (next_fault (redis_faults (redis w))) = None \<Longrightarrow>
   fst (Cached_GetAll J repo w) = (xs, None)"
  by (auto simp: Cached_GetAll_def Let_def case_prod_beta Redis_Get_cases
           split: option.splits prod.splits)

lemma read_ops_keys:
  "\<forall>op\<in>set (new_ops w (snd (Cached_GetByID J repo id' w))).
     op_key op \<noteq> generateCacheKey ''all'' ''''"
  "\<forall>op\<in>set (new_ops w (snd (Cached_GetByArtist J repo artist w))).
     op_key op \<noteq> generateCacheKey ''all'' ''''"
  "\<forall>op\<in>set (new_ops w (snd (Cached_GetInStock J repo w))).
     op_key op \<noteq> generateCacheKey ''all'' ''''"
  using read_goroutines(2) [of J repo id' w] read_goroutines(3) [of J repo artist w]
    read_goroutines(4) [of J repo w]
  by (auto simp: populate_def split: option.splits)

subsection \<open>Reads of a by-id entry\<close>

lemma Cached_GetByID_miss:
  "fst (fst (Redis_Get (generateCacheKey ''id'' id') (redis w))) = '''' \<or>
   Unmarshal_album J (fst (fst (Redis_Get (generateCacheKey ''id'' id') (redis w)))) = None
   \<Longrightarrow>
   fst (Cached_GetByID J repo id' w) =
     (case fst (GetByID repo id' (store w)) of
        (album, None) \<Rightarrow> (album, None)
      | (album, Some e) \<Rightarrow> (None, Some e))"
  by (auto simp: Cached_GetByID_def Let_def case_prod_beta split: option.splits prod.splits)

lemma Cached_GetByID_hit:
  "fst (fst (Redis_Get (generateCacheKey ''id'' id') (redis w))) \<noteq> '''' \<Longrightarrow>
   Unmarshal_album J (fst (fst (Redis_Get (generateCacheKey ''id'' id') (redis w)))) = Some b
   \<Longrightarrow> fst (Cached_GetByID J repo id' w) = (Some b, None)"
  by (auto simp: Cached_GetByID_def Let_def case_prod_beta split: option.splits prod.splits)

lemma Redis_Get_value:
  "fst (fst (Redis_Get key r)) = '''' \<or>
   (\<exists>t. kv r key = Some (fst (fst (Redis_Get key r)), t))"
  by (auto simp: Redis_Get_cases split: prod.splits option.splits)


lemma untouched_no_op:
  "untouched key gs \<Longrightarrow> g \<in> set gs \<Longrightarrow> op \<in> set g \<Longrightarrow> op_key op = key \<Longrightarrow> False"
  by (auto simp: untouched_def)

subsection \<open>Create on the record store\<close>

lemma Postgres_Create_ok:
  assumes "snd (fst (Postgres_Create album s)) = None"
  shows "albums_table (snd (Postgres_Create album s)) =
           albums_table s @
           [(fst (fst (Postgres_Create album s)))
              \<lparr>Price := numeric_10_2 (Price album),
               CreatedAt := timestamptz (CreatedAt (fst (fst (Postgres_Create album s)))),
               UpdatedAt := timestamptz (UpdatedAt (fst (fst (Postgres_Create album s))))\<rparr>]"
    and "ID (fst (fst (Postgres_Create album s))) \<notin> set (map ID (albums_table s))"
  using assms
  by (auto simp: Postgres_Create_def Exec_insert_def generateID_def time_Now_def Let_def
        case_prod_beta split: option.splits if_splits)

lemma find_append_new:
  "i \<notin> set (map ID xs) \<Longrightarrow> ID r = i \<Longrightarrow> find (\<lambda>r. ID r = i) (xs @ [r]) = Some r"
  by (induction xs) auto

lemma same_content_Create:
  "same_content album (fst (fst (Postgres_Create album s)))"
  by (simp add: Postgres_Create_album same_content_def)

lemma same_content_trans: "same_content a b \<Longrightarrow> same_content b c \<Longrightarrow> same_content a c"
  by (simp add: same_content_def)

subsection \<open>Evaluation of the closed examples\<close>

lemma numeric_10_2_exact: "numeric_10_2 (rat_of_int k / 100) = rat_of_int k / 100"
proof -
  have "round (- rat_of_int k) = - k"
    by (metis of_int_minus round_of_int)
  then show ?thesis by (simp add: numeric_10_2_def)
qed

lemma numeric_examples:
  "numeric_10_2 (3999 / 100) = 3999 / 100"
  "numeric_10_2 (5699 / 100) = 5699 / 100"
  "numeric_10_2 45 = 45"
  "numeric_10_2 (1 / 1000) = 0"
  using numeric_10_2_exact [of 3999] numeric_10_2_exact [of 5699] numeric_10_2_exact [of 4500]
  by (simp_all add: numeric_10_2_def round_def floor_eq_iff)

lemmas store_eval =
  NewPostgresAlbumRepository_def Postgres_GetAll_def Postgres_GetByID_def Postgres_Create_def
  Postgres_Update_def Postgres_Delete_def Postgres_GetByArtist_def Postgres_GetInStock_def
  Exec_insert_def Exec_update_def Exec_delete_def QueryRow_by_id_def RowsAffected_def
  Query_def collect_rows_def driver_call_def next_fault_def generateID_def time_Now_def
  Sprintf_d_def digits.simps digit_def Errorf_w_def timestamptz_def numeric_examples
  ticking_def time_out_def blue_train_def shop_db_def shop_def Let_def

lemmas cache_eval =
  Cached_GetAll_def Cached_GetByID_def Cached_Create_def Cached_Update_def Cached_Delete_def
  Cached_GetByArtist_def Cached_GetInStock_def Redis_Get_def Redis_Set_def Redis_Delete_def
  client_Get_def client_Set_def client_Del_def go_def populate_def invalidateCache_def
  cacheAlbum_def generateCacheKey_def Marshal_ptr_def table_codec_def shop_codec_def
  run_op_def step_def time_Minute_def time_Second_def

subsection \<open>Reads on a cache failure\<close>

lemma Cached_GetAll_miss:
  "snd (fst (Redis_Get (generateCacheKey ''all'' '''') (redis w))) \<noteq> None \<or>
   fst (fst (Redis_Get (generateCacheKey ''all'' '''') (redis w))) = '''' \<or>
   Unmarshal_albums J (fst (fst (Redis_Get (generateCacheKey ''all'' '''') (redis w)))) = None
   \<Longrightarrow>
   fst (Cached_GetAll J repo w) =
     (case fst (GetAll repo (store w)) of
        (albums, None) \<Rightarrow> (albums, None)
      | (albums, Some e) \<Rightarrow> ([], Some e))"
  using Redis_Get_error_empty [of "generateCacheKey ''all'' ''''" "redis w"]
  by (auto simp: Cached_GetAll_def Let_def split: prod.splits option.splits)

lemma Cached_GetByID_miss_or_error:
  "snd (fst (Redis_Get (generateCacheKey ''id'' id') (redis w))) \<noteq> None \<or>
   fst (fst (Redis_Get (generateCacheKey ''id'' id') (redis w))) = '''' \<or>
   Unmarshal_album J (fst (fst (Redis_Get (generateCacheKey ''id'' id') (redis w)))) = None
   \<Longrightarrow>
   fst (Cached_GetByID J repo id' w) =
     (case fst (GetByID repo id' (store w)) of
        (album, None) \<Rightarrow> (album, None)
      | (album, Some e) \<Rightarrow> (None, Some e))"
  using Redis_Get_error_empty [of "generateCacheKey ''id'' id'" "redis w"]
    Cached_GetByID_miss [of id' w J repo]
  by blast

lemma Cached_GetByArtist_miss:
  "snd (fst (Redis_Get (generateCacheKey ''artist'' artist) (redis w))) \<noteq> None \<or>
   fst (fst (Redis_Get (generateCacheKey ''artist'' artist) (redis w))) = '''' \<or>
   Unmarshal_albums J (fst (fst (Redis_Get (generateCacheKey ''artist'' artist) (redis w)))) = None
   \<Longrightarrow>
   fst (Cached_GetByArtist J repo artist w) =
     (case fst (GetByArtist repo artist (store w)) of
        (albums, None) \<Rightarrow> (albums, None)
      | (albums, Some e) \<Rightarrow> ([], Some e))"
  using Redis_Get_error_empty [of "generateCacheKey ''artist'' artist" "redis w"]
  by (auto simp: Cached_GetByArtist_def Let_def split: prod.splits option.splits)

lemma Cached_GetInStock_miss:
  "snd (fst (Redis_Get (generateCacheKey ''stock'' '''') (redis w))) \<noteq> None \<or>
   fst (fst (Redis_Get (generateCacheKey ''stock'' '''') (redis w))) = '''' \<or>
   Unmarshal_albums J (fst (fst (Redis_Get (generateCacheKey ''stock'' '''') (redis w)))) = None
   \<Longrightarrow>
   fst (Cached_GetInStock J repo w) =
     (case fst (GetInStock repo (store w)) of
        (albums, None) \<Rightarrow> (albums, None)
      | (albums, Some e) \<Rightarrow> ([], Some e))"
  using Redis_Get_error_empty [of "generateCacheKey ''stock'' ''''" "redis w"]
  by (auto simp: Cached_GetInStock_def Let_def split: prod.splits option.splits)

lemma read_errors:
  "snd (fst (Cached_GetAll J repo w)) \<in> {None, snd (fst (GetAll repo (store w)))}"
  "snd (fst (Cached_GetByID J repo id' w)) \<in> {None, snd (fst (GetByID repo id' (store w)))}"
  "snd (fst (Cached_GetByArtist J repo artist w)) \<in>
     {None, snd (fst (GetByArtist repo artist (store w)))}"
  "snd (fst (Cached_GetInStock J repo w)) \<in> {None, snd (fst (GetInStock repo (store w)))}"
  by (auto simp: Cached_GetAll_def Cached_GetByID_def Cached_GetByArtist_def Cached_GetInStock_def
        Let_def case_prod_beta split: option.splits)

subsection \<open>Update of an absent identifier\<close>

lemma Postgres_Update_not_found:
  "healthy 2 (db_faults s) \<Longrightarrow> ID album \<notin> set (map ID (albums_table s)) \<Longrightarrow>
   snd (fst (Postgres_Update album s)) =
     Some (ErrorString (''album with ID '' @ ID album @ '' not found''))"
  unfolding absent_conv [symmetric]
  by (auto simp: Postgres_Update_cases healthy_2 Let_def driver_call_snd_upd
           split: option.splits)

section \<open>Claims\<close>

text \<open>
  Claim C1. For each read of the caching decorator (GetAll, GetByID, GetByArtist,
  GetInStock): when the cache read returns an error, an empty payload, or a payload that
  does not unmarshal, the result is the one of the durable store, which is asked instead
  (a store error is passed on with a nil result). The error a read returns is either none
  or the error of the store: no failure of the cache reaches the caller. The errors of the
  detached population have no way back, since running a cache command yields only the new
  cache state.
\<close>

theorem cache_failure_is_miss:
  "(snd (fst (Redis_Get (generateCacheKey ''all'' '''') (redis w))) \<noteq> None \<or>
    fst (fst (Redis_Get (generateCacheKey ''all'' '''') (redis w))) = '''' \<or>
    Unmarshal_albums J (fst (fst (Redis_Get (generateCacheKey ''all'' '''') (redis w)))) = None
    \<longrightarrow>
    fst (Cached_GetAll J repo w) =
      (case fst (GetAll repo (store w)) of
         (albums, None) \<Rightarrow> (albums, None)
       | (albums, Some e) \<Rightarrow> ([], Some e))) \<and>
   (snd (fst (Redis_Get (generateCacheKey ''id'' id') (redis w))) \<noteq> None \<or>
    fst (fst (Redis_Get (generateCacheKey ''id'' id') (redis w))) = '''' \<or>
    Unmarshal_album J (fst (fst (Redis_Get (generateCacheKey ''id'' id') (redis w)))) = None
    \<longrightarrow>
    fst (Cached_GetByID J repo id' w) =
      (case fst (GetByID repo id' (store w)) of
         (album, None) \<Rightarrow> (album, None)
       | (album, Some e) \<Rightarrow> (None, Some e))) \<and>
   (snd (fst (Redis_Get (generateCacheKey ''artist'' artist) (redis w))) \<noteq> None \<or>
    fst (fst (Redis_Get (generateCacheKey ''artist'' artist) (redis w))) = '''' \<or>
    Unmarshal_albums J (fst (fst (Redis_Get (generateCacheKey ''artist'' artist) (redis w)))) = None
    \<longrightarrow>
    fst (Cached_GetByArtist J repo artist w) =
      (case fst (GetByArtist repo artist (store w)) of
         (albums, None) \<Rightarrow> (albums, None)
       | (albums, Some e) \<Rightarrow> ([], Some e))) \<and>
   (snd (fst (Redis_Get (generateCacheKey ''stock'' '''') (redis w))) \<noteq> None \<or>
    fst (fst (Redis_Get (generateCacheKey ''stock'' '''') (redis w))) = '''' \<or>
    Unmarshal_albums J (fst (fst (Redis_Get (generateCacheKey ''stock'' '''') (redis w)))) = None
    \<longrightarrow>
    fst (Cached_GetInStock J repo w) =
      (case fst (GetInStock repo (store w)) of
         (albums, None) \<Rightarrow> (albums, None)
       | (albums, Some e) \<Rightarrow> ([], Some e))) \<and>
   snd (fst (Cached_GetAll J repo w)) \<in> {None, snd (fst (GetAll repo (store w)))} \<and>
   snd (fst (Cached_GetByID J repo id' w)) \<in> {None, snd (fst (GetByID repo id' (store w)))} \<and>
   snd (fst (Cached_GetByArtist J repo artist w)) \<in>
     {None, snd (fst (GetByArtist repo artist (store w)))} \<and>
   snd (fst (Cached_GetInStock J repo w)) \<in> {None, snd (fst (GetInStock repo (store w)))}"
  using Cached_GetAll_miss [of w J repo] Cached_GetByID_miss_or_error [of id' w J repo]
    Cached_GetByArtist_miss [of artist w J repo] Cached_GetInStock_miss [of w J repo]
    read_errors(1) [of J repo w] read_errors(2) [of J repo id' w]
    read_errors(3) [of J repo artist w] read_errors(4) [of J repo w]
  by blast

text \<open>
  The cache backend times out (the first three reads) or holds a payload that does not
  unmarshal as a list (the last one): each read answers from the store, without an error.
\<close>

theorem cache_failure_is_miss_witness:
  "snd (fst (Redis_Get (generateCacheKey ''all'' '''') (redis (shop [] [] [Some ''i/o timeout''])))) \<noteq> None \<and>
   fst (Cached_GetAll shop_codec NewPostgresAlbumRepository (shop [] [] [Some ''i/o timeout''])) =
     ([blue_train], None) \<and>
   snd (fst (Redis_Get (generateCacheKey ''id'' ''1'') (redis (shop [] [] [Some ''i/o timeout''])))) \<noteq> None \<and>
   fst (Cached_GetByID shop_codec NewPostgresAlbumRepository ''1'' (shop [] [] [Some ''i/o timeout''])) =
     (Some blue_train, None) \<and>
   snd (fst (Redis_Get (generateCacheKey ''artist'' ''John Coltrane'')
     (redis (shop [] [] [Some ''i/o timeout''])))) \<noteq> None \<and>
   fst (Cached_GetByArtist shop_codec NewPostgresAlbumRepository ''John Coltrane''
     (shop [] [] [Some ''i/o timeout''])) = ([blue_train], None) \<and>
   Unmarshal_albums shop_codec (fst (fst (Redis_Get (generateCacheKey ''stock'' '''')
     (redis (shop [] [(''album:stock:'', ''{blue train}'', 30)] []))))) = None \<and>
   fst (Cached_GetInStock shop_codec NewPostgresAlbumRepository
     (shop [] [(''album:stock:'', ''{blue train}'', 30)] [])) = ([blue_train], None)"
proof -
  let ?down = "shop [] [] [Some ''i/o timeout'']"
  let ?corrupt = "shop [] [(''album:stock:'', ''{blue train}'', 30)] []"
  have h1: "snd (fst (Redis_Get (generateCacheKey ''all'' '''') (redis ?down))) \<noteq> None"
    and h2: "snd (fst (Redis_Get (generateCacheKey ''id'' ''1'') (redis ?down))) \<noteq> None"
    and h3: "snd (fst (Redis_Get (generateCacheKey ''artist'' ''John Coltrane'') (redis ?down))) \<noteq> None"
    and h4: "Unmarshal_albums shop_codec
      (fst (fst (Redis_Get (generateCacheKey ''stock'' '''') (redis ?corrupt)))) = None"
    by (simp_all add: store_eval cache_eval)
  have s1: "fst (GetAll NewPostgresAlbumRepository (store ?down)) = ([blue_train], None)"
    and s2: "fst (GetByID NewPostgresAlbumRepository ''1'' (store ?down)) = (Some blue_train, None)"
    and s3: "fst (GetByArtist NewPostgresAlbumRepository ''John Coltrane'' (store ?down)) =
      ([blue_train], None)"
    and s4: "fst (GetInStock NewPostgresAlbumRepository (store ?corrupt)) = ([blue_train], None)"
    by (simp_all add: store_eval)
  from h1 h2 h3 h4 s1 s2 s3 s4
    cache_failure_is_miss [where w = ?down and J = shop_codec
      and repo = NewPostgresAlbumRepository and id' = "''1''" and artist = "''John Coltrane''"]
    cache_failure_is_miss [where w = ?corrupt and J = shop_codec
      and repo = NewPostgresAlbumRepository and id' = "''1''" and artist = "''John Coltrane''"]
  show ?thesis by simp
qed

text \<open>
  Claim C2, as the code has it. A successful Create through the decorator is followed,
  after any part of the detached goroutines has run, by a GetByID of the assigned
  identifier. Provided the price has at most two fractional digits (the column
  \<^verbatim>\<open>price DECIMAL(10,2)\<close> stores it unchanged), the codec decodes what it encoded to the
  same content, the by-id key of the new identifier was neither set nor about to be set
  before the Create, and the database answers the read, the read returns a record that
  equals the written one up to the identifier and the timestamps, whether it comes from
  the pre-warmed entry or from the store.
\<close>

theorem create_then_get_same_content:
  fixes w :: "PostgresDB cached_state"
  shows
  "snd (fst (Cached_Create J NewPostgresAlbumRepository album w)) = None \<and>
   a' = fst (fst (Cached_Create J NewPostgresAlbumRepository album w)) \<and>
   later = run_schedule sched (snd (Cached_Create J NewPostgresAlbumRepository album w)) \<and>
   numeric_10_2 (Price album) = Price album \<and>
   (\<forall>d b. Marshal_album J a' = Some d \<and> Unmarshal_album J d = Some b \<longrightarrow> same_content a' b) \<and>
   kv (redis w) (generateCacheKey ''id'' (ID a')) = None \<and>
   untouched (generateCacheKey ''id'' (ID a')) (goroutines w) \<and>
   healthy 1 (db_faults (store later)) \<longrightarrow>
     (\<exists>b. fst (Cached_GetByID J NewPostgresAlbumRepository (ID a') later) = (Some b, None) \<and>
          same_content album b)"
proof
  let ?c = "Cached_Create J NewPostgresAlbumRepository album w"
  let ?w1 = "snd ?c"
  let ?key = "generateCacheKey ''id'' (ID a')"
  assume h: "snd (fst ?c) = None \<and> a' = fst (fst ?c) \<and> later = run_schedule sched ?w1 \<and>
   numeric_10_2 (Price album) = Price album \<and>
   (\<forall>d b. Marshal_album J a' = Some d \<and> Unmarshal_album J d = Some b \<longrightarrow> same_content a' b) \<and>
   kv (redis w) ?key = None \<and> untouched ?key (goroutines w) \<and>
   healthy 1 (db_faults (store later))"
  then have ok: "snd (fst (Postgres_Create album (store w))) = None"
    and a': "a' = fst (fst (Postgres_Create album (store w)))"
    by (simp_all add: Cached_Create_effect)
  have st: "store later = snd (Postgres_Create album (store w))"
    using h by (simp add: Cached_Create_effect)
  have ca: "same_content album a'" unfolding a' by (rule same_content_Create)
  have "only_payload ?key (Marshal_album J a') ?w1"
    using h ok a'
    by (auto simp: only_payload_def Cached_Create_effect cacheAlbum_def Let_def
             dest: untouched_no_op split: option.splits cache_op.splits)
  then have op: "only_payload ?key (Marshal_album J a') later"
    using h by (simp add: only_payload_run_schedule)
  let ?d = "fst (fst (Redis_Get ?key (redis later)))"
  show "\<exists>b. fst (Cached_GetByID J NewPostgresAlbumRepository (ID a') later) = (Some b, None) \<and>
          same_content album b"
  proof (cases "?d \<noteq> '''' \<and> Unmarshal_album J ?d \<noteq> None")
    case True
    then obtain b where b: "Unmarshal_album J ?d = Some b" by auto
    from True Redis_Get_value [of ?key "redis later"] obtain t where "kv (redis later) ?key = Some (?d, t)"
      by auto
    with op have "Marshal_album J a' = Some ?d" by (simp add: only_payload_def)
    with h b have "same_content a' b" by blast
    with ca have "same_content album b" by (rule same_content_trans)
    moreover from True b have "fst (Cached_GetByID J NewPostgresAlbumRepository (ID a') later) = (Some b, None)"
      by (intro Cached_GetByID_hit) simp_all
    ultimately show ?thesis by blast
  next
    case False
    let ?row = "a'\<lparr>Price := numeric_10_2 (Price album), CreatedAt := timestamptz (CreatedAt a'),
                  UpdatedAt := timestamptz (UpdatedAt a')\<rparr>"
    from Postgres_Create_ok [OF ok] a' st
    have tbl: "albums_table (store later) = albums_table (store w) @ [?row]"
      and fresh: "ID a' \<notin> set (map ID (albums_table (store w)))"
      by simp_all
    from fresh have "find (\<lambda>r. ID r = ID a') (albums_table (store later)) = Some ?row"
      unfolding tbl by (intro find_append_new) simp_all
    moreover from h have "healthy 1 (db_faults (store later))" by blast
    then have "fst (driver_call (store later)) = None" by (simp add: healthy_1)
    ultimately have "fst (Postgres_GetByID (ID a') (store later)) = (Some ?row, None)"
      by (simp add: Postgres_GetByID_cases)
    with False have "fst (Cached_GetByID J NewPostgresAlbumRepository (ID a') later) = (Some ?row, None)"
      using Cached_GetByID_miss [of "ID a'" later J NewPostgresAlbumRepository] by auto
    moreover from ca h have "same_content album ?row" by (simp add: same_content_def)
    ultimately show ?thesis by blast
  qed
qed

text \<open>
  Time Out at 39.99 is created on a cold cache and the goroutine of the Create runs to its
  end, so that the read is answered from the pre-warmed entry.
\<close>

theorem create_then_get_same_content_witness:
  "snd (fst (Cached_Create shop_codec NewPostgresAlbumRepository time_out (shop [] [] []))) = None \<and>
   time_out\<lparr>ID := ''1000'', CreatedAt := 1001, UpdatedAt := 1002\<rparr> =
     fst (fst (Cached_Create shop_codec NewPostgresAlbumRepository time_out (shop [] [] []))) \<and>
   numeric_10_2 (Price time_out) = Price time_out \<and>
   Marshal_album shop_codec (time_out\<lparr>ID := ''1000'', CreatedAt := 1001, UpdatedAt := 1002\<rparr>) =
     Some ''{time out}'' \<and>
   Unmarshal_album shop_codec ''{time out}'' =
     Some (time_out\<lparr>ID := ''1000'', CreatedAt := 1001, UpdatedAt := 1002\<rparr>) \<and>
   kv (redis (shop [] [] [])) (generateCacheKey ''id'' ''1000'') = None \<and>
   untouched (generateCacheKey ''id'' ''1000'') (goroutines (shop [] [] [])) \<and>
   healthy 1 (db_faults (store (run_schedule [0, 0, 0]
     (snd (Cached_Create shop_codec NewPostgresAlbumRepository time_out (shop [] [] [])))))) \<and>
   kv (redis (run_schedule [0, 0, 0]
     (snd (Cached_Create shop_codec NewPostgresAlbumRepository time_out (shop [] [] [])))))
     (generateCacheKey ''id'' ''1000'') = Some (''{time out}'', 300000000000) \<and>
   (\<exists>b. fst (Cached_GetByID shop_codec NewPostgresAlbumRepository ''1000''
          (run_schedule [0, 0, 0]
            (snd (Cached_Create shop_codec NewPostgresAlbumRepository time_out (shop [] [] []))))) =
          (Some b, None) \<and>
        same_content time_out b)"
proof -
  let ?w = "shop [] [] []"
  let ?a' = "time_out\<lparr>ID := ''1000'', CreatedAt := 1001, UpdatedAt := 1002\<rparr>"
  let ?later = "run_schedule [0, 0, 0]
    (snd (Cached_Create shop_codec NewPostgresAlbumRepository time_out ?w))"
  have h: "snd (fst (Cached_Create shop_codec NewPostgresAlbumRepository time_out ?w)) = None"
    "?a' = fst (fst (Cached_Create shop_codec NewPostgresAlbumRepository time_out ?w))"
    "numeric_10_2 (Price time_out) = Price time_out"
    "kv (redis ?w) (generateCacheKey ''id'' ''1000'') = None"
    "untouched (generateCacheKey ''id'' ''1000'') (goroutines ?w)"
    "healthy 1 (db_faults (store ?later))"
    "kv (redis ?later) (generateCacheKey ''id'' ''1000'') = Some (''{time out}'', 300000000000)"
    by (simp_all add: untouched_def healthy_def store_eval cache_eval)
  have m: "Marshal_album shop_codec ?a' = Some ''{time out}''"
    "Unmarshal_album shop_codec ''{time out}'' = Some ?a'"
    by (simp_all add: shop_codec_def table_codec_def time_out_def blue_train_def)
  then have rt: "\<forall>d b. Marshal_album shop_codec ?a' = Some d \<and> Unmarshal_album shop_codec d = Some b \<longrightarrow>
      same_content ?a' b"
    by (auto simp: same_content_def)
  have i: "ID ?a' = ''1000''" by simp
  from h m rt i
    create_then_get_same_content [where J = shop_codec and album = time_out and w = ?w
      and a' = ?a' and later = ?later and sched = "[0, 0, 0]"]
  show ?thesis by simp
qed

text \<open>
  Claim C2 as stated fails. An album priced 0.001 is valid for the service and is created
  successfully; the read that follows at once is answered from the store, where the price
  column has two fractional digits, and returns the price 0.
\<close>

theorem create_then_get_price_rounded_counterexample:
  "Title (time_out\<lparr>Price := 1 / 1000\<rparr>) \<noteq> '''' \<and> 0 \<le> Price (time_out\<lparr>Price := 1 / 1000\<rparr>) \<and>
   fst (Cached_Create shop_codec NewPostgresAlbumRepository (time_out\<lparr>Price := 1 / 1000\<rparr>)
     (shop [] [] [])) =
     (time_out\<lparr>ID := ''1000'', Price := 1 / 1000, CreatedAt := 1001, UpdatedAt := 1002\<rparr>, None) \<and>
   fst (Cached_GetByID shop_codec NewPostgresAlbumRepository ''1000''
     (snd (Cached_Create shop_codec NewPostgresAlbumRepository (time_out\<lparr>Price := 1 / 1000\<rparr>)
       (shop [] [] [])))) =
     (Some (time_out\<lparr>ID := ''1000'', Price := 0, CreatedAt := 1000, UpdatedAt := 1000\<rparr>), None) \<and>
   \<not> same_content (time_out\<lparr>Price := 1 / 1000\<rparr>)
       (time_out\<lparr>ID := ''1000'', Price := 0, CreatedAt := 1000, UpdatedAt := 1000\<rparr>)"
  by (simp add: same_content_def store_eval cache_eval)

text \<open>
  Claim C3. After a successful store Update the decorator returns without an error, leaves
  the cache as it is and detaches one goroutine that deletes, in this order, the by-id
  key of the record, the by-artist key of the artist read before the mutation when that
  read returned a record, the by-artist key of the new artist and the in-stock key. After
  a successful store Delete it is the by-id key, the by-artist key of the record read
  before the mutation when there is one, and the in-stock key. The outcome of the read
  before the mutation is not looked at otherwise: its failure only drops the one deletion.
\<close>

theorem update_delete_dispatch_invalidation:
  "(snd (fst (Update repo album (snd (GetByID repo (ID album) (store w))))) = None \<longrightarrow>
      fst (Cached_Update J repo album w) =
        (fst (fst (Update repo album (snd (GetByID repo (ID album) (store w))))), None) \<and>
      redis (snd (Cached_Update J repo album w)) = redis w \<and>
      goroutines (snd (Cached_Update J repo album w)) =
        goroutines w @
        [CacheDel (generateCacheKey ''id''
            (ID (fst (fst (Update repo album (snd (GetByID repo (ID album) (store w)))))))) #
         (case fst (fst (GetByID repo (ID album) (store w))) of
            Some old \<Rightarrow> [CacheDel (generateCacheKey ''artist'' (Artist old))]
          | None \<Rightarrow> []) @
         [CacheDel (generateCacheKey ''artist''
            (Artist (fst (fst (Update repo album (snd (GetByID repo (ID album) (store w)))))))),
          CacheDel (generateCacheKey ''stock'' '''')]]) \<and>
   (fst (Delete repo id' (snd (GetByID repo id' (store w)))) = None \<longrightarrow>
      fst (Cached_Delete J repo id' w) = None \<and>
      redis (snd (Cached_Delete J repo id' w)) = redis w \<and>
      goroutines (snd (Cached_Delete J repo id' w)) =
        goroutines w @
        [CacheDel (generateCacheKey ''id'' id') #
         (case fst (fst (GetByID repo id' (store w))) of
            Some a \<Rightarrow> [CacheDel (generateCacheKey ''artist'' (Artist a))]
          | None \<Rightarrow> []) @
         [CacheDel (generateCacheKey ''stock'' '''')]])"
  by (auto simp: Cached_Update_def Cached_Delete_def Let_def go_def invalidateCache_def
           split: prod.splits option.splits)

text \<open>
  An update that moves the stored album to another artist while the read before it fails
  (the old artist's key is not deleted), and a delete whose read before it succeeds.
\<close>

theorem update_delete_dispatch_invalidation_witness:
  "snd (fst (Update NewPostgresAlbumRepository (blue_train\<lparr>Artist := ''Coltrane''\<rparr>)
     (snd (GetByID NewPostgresAlbumRepository ''1'' (store (shop [Some ''i/o timeout''] [] [])))))) = None \<and>
   snd (fst (Cached_Update shop_codec NewPostgresAlbumRepository (blue_train\<lparr>Artist := ''Coltrane''\<rparr>)
     (shop [Some ''i/o timeout''] [] []))) = None \<and>
   goroutines (snd (Cached_Update shop_codec NewPostgresAlbumRepository
     (blue_train\<lparr>Artist := ''Coltrane''\<rparr>) (shop [Some ''i/o timeout''] [] []))) =
     [[CacheDel ''album:id:1'', CacheDel ''album:artist:Coltrane'', CacheDel ''album:stock:'']] \<and>
   fst (Delete NewPostgresAlbumRepository ''1''
     (snd (GetByID NewPostgresAlbumRepository ''1'' (store (shop [] [] []))))) = None \<and>
   fst (Cached_Delete shop_codec NewPostgresAlbumRepository ''1'' (shop [] [] [])) = None \<and>
   goroutines (snd (Cached_Delete shop_codec NewPostgresAlbumRepository ''1'' (shop [] [] []))) =
     [[CacheDel ''album:id:1'', CacheDel ''album:artist:John Coltrane'', CacheDel ''album:stock:'']]"
proof -
  let ?a = "blue_train\<lparr>Artist := ''Coltrane''\<rparr>"
  let ?w = "shop [Some ''i/o timeout''] [] []"
  let ?v = "shop [] [] []"
  have h1: "snd (fst (Update NewPostgresAlbumRepository ?a
      (snd (GetByID NewPostgresAlbumRepository ''1'' (store ?w))))) = None"
    and h2: "fst (Delete NewPostgresAlbumRepository ''1''
      (snd (GetByID NewPostgresAlbumRepository ''1'' (store ?v)))) = None"
    by (simp_all add: store_eval)
  have e: "ID ?a = ''1''"
    "Artist (fst (fst (Update NewPostgresAlbumRepository ?a
      (snd (GetByID NewPostgresAlbumRepository ''1'' (store ?w)))))) = ''Coltrane''"
    "ID (fst (fst (Update NewPostgresAlbumRepository ?a
      (snd (GetByID NewPostgresAlbumRepository ''1'' (store ?w)))))) = ''1''"
    "fst (fst (GetByID NewPostgresAlbumRepository ''1'' (store ?w))) = None"
    "fst (fst (GetByID NewPostgresAlbumRepository ''1'' (store ?v))) = Some blue_train"
    "Artist blue_train = ''John Coltrane''" "goroutines ?w = []" "goroutines ?v = []"
    by (simp_all add: store_eval)
  from h1 h2 e
    update_delete_dispatch_invalidation [where repo = NewPostgresAlbumRepository
      and album = ?a and w = ?w and J = shop_codec and id' = "''1''"]
    update_delete_dispatch_invalidation [where repo = NewPostgresAlbumRepository
      and album = ?a and w = ?v and J = shop_codec and id' = "''1''"]
  show ?thesis by (simp add: generateCacheKey_def)
qed




text \<open>
  Claim C5. When the store's Create, Update or Delete returns an error, the decorator
  returns the store's result as it is (the same error), and the state afterwards differs
  from the one before only in the store: the cache and the detached goroutines are the
  ones from before the call, so no cache command was run or dispatched.
\<close>

theorem failed_write_leaves_cache:
  "(snd (fst (Create repo album (store w))) \<noteq> None \<longrightarrow>
      fst (Cached_Create J repo album w) = fst (Create repo album (store w)) \<and>
      snd (Cached_Create J repo album w) = w\<lparr>store := snd (Create repo album (store w))\<rparr>) \<and>
   (snd (fst (Update repo album (snd (GetByID repo (ID album) (store w))))) \<noteq> None \<longrightarrow>
      fst (Cached_Update J repo album w) =
        fst (Update repo album (snd (GetByID repo (ID album) (store w)))) \<and>
      snd (Cached_Update J repo album w) =
        w\<lparr>store := snd (Update repo album (snd (GetByID repo (ID album) (store w))))\<rparr>) \<and>
   (fst (Delete repo id' (snd (GetByID repo id' (store w)))) \<noteq> None \<longrightarrow>
      fst (Cached_Delete J repo id' w) = fst (Delete repo id' (snd (GetByID repo id' (store w)))) \<and>
      snd (Cached_Delete J repo id' w) =
        w\<lparr>store := snd (Delete repo id' (snd (GetByID repo id' (store w))))\<rparr>)"
  by (auto simp: Cached_Create_def Cached_Update_def Cached_Delete_def Let_def
           split: prod.splits option.splits)

text \<open>
  The database refuses the statement of each write (for Update and Delete after the read
  before the mutation went through): the caller gets the store's wrapped error, and the
  warm in-stock entry and the empty list of goroutines are untouched.
\<close>

theorem failed_write_leaves_cache_witness:
  "snd (fst (Create NewPostgresAlbumRepository time_out
     (store (shop [Some ''connection refused''] [(''album:stock:'', ''[{blue train}]'', 30)] [])))) \<noteq> None \<and>
   snd (fst (Cached_Create shop_codec NewPostgresAlbumRepository time_out
     (shop [Some ''connection refused''] [(''album:stock:'', ''[{blue train}]'', 30)] []))) =
     Some (WrapError ''failed to create album: connection refused'' (DriverError ''connection refused'')) \<and>
   redis (snd (Cached_Create shop_codec NewPostgresAlbumRepository time_out
     (shop [Some ''connection refused''] [(''album:stock:'', ''[{blue train}]'', 30)] []))) =
     redis (shop [Some ''connection refused''] [(''album:stock:'', ''[{blue train}]'', 30)] []) \<and>
   snd (fst (Update NewPostgresAlbumRepository blue_train
     (snd (GetByID NewPostgresAlbumRepository (ID blue_train)
       (store (shop [None, Some ''connection refused''] [(''album:stock:'', ''[{blue train}]'', 30)] [])))))) \<noteq> None \<and>
   snd (fst (Cached_Update shop_codec NewPostgresAlbumRepository blue_train
     (shop [None, Some ''connection refused''] [(''album:stock:'', ''[{blue train}]'', 30)] []))) =
     Some (WrapError ''failed to update album: connection refused'' (DriverError ''connection refused'')) \<and>
   goroutines (snd (Cached_Update shop_codec NewPostgresAlbumRepository blue_train
     (shop [None, Some ''connection refused''] [(''album:stock:'', ''[{blue train}]'', 30)] []))) = [] \<and>
   fst (Delete NewPostgresAlbumRepository ''1''
     (snd (GetByID NewPostgresAlbumRepository ''1''
       (store (shop [None, Some ''connection refused''] [(''album:stock:'', ''[{blue train}]'', 30)] []))))) \<noteq> None \<and>
   fst (Cached_Delete shop_codec NewPostgresAlbumRepository ''1''
     (shop [None, Some ''connection refused''] [(''album:stock:'', ''[{blue train}]'', 30)] [])) =
     Some (WrapError ''failed to delete album: connection refused'' (DriverError ''connection refused'')) \<and>
   goroutines (snd (Cached_Delete shop_codec NewPostgresAlbumRepository ''1''
     (shop [None, Some ''connection refused''] [(''album:stock:'', ''[{blue train}]'', 30)] []))) = []"
proof -
  let ?w = "shop [Some ''connection refused''] [(''album:stock:'', ''[{blue train}]'', 30)] []"
  let ?v = "shop [None, Some ''connection refused''] [(''album:stock:'', ''[{blue train}]'', 30)] []"
  have h1: "snd (fst (Create NewPostgresAlbumRepository time_out (store ?w))) =
      Some (WrapError ''failed to create album: connection refused'' (DriverError ''connection refused''))"
    and h2: "snd (fst (Update NewPostgresAlbumRepository blue_train
      (snd (GetByID NewPostgresAlbumRepository (ID blue_train) (store ?v))))) =
      Some (WrapError ''failed to update album: connection refused'' (DriverError ''connection refused''))"
    and h3: "fst (Delete NewPostgresAlbumRepository ''1''
      (snd (GetByID NewPostgresAlbumRepository ''1'' (store ?v)))) =
      Some (WrapError ''failed to delete album: connection refused'' (DriverError ''connection refused''))"
    by (simp_all add: store_eval)
  have g: "goroutines ?v = []" by (simp add: shop_def)
  from h1 h2 h3 g
    failed_write_leaves_cache [where repo = NewPostgresAlbumRepository and album = time_out
      and w = ?w and J = shop_codec and id' = "''1''"]
    failed_write_leaves_cache [where repo = NewPostgresAlbumRepository and album = blue_train
      and w = ?v and J = shop_codec and id' = "''1''"]
  show ?thesis by simp
qed



text \<open>
  Claim C7. For the service's UpdateAlbum over the decorator over the PostgreSQL store:
  the call never changes the creation timestamp (nor the identifier) of any stored row.
  When it succeeds, a row with the identifier existed and every row with the identifier
  now has, as \<^verbatim>\<open>updated_at\<close>, the clock reading taken during the update (at the
  precision of the column). It does succeed for an existing identifier, a valid album and
  a database that answers. When no row has the identifier the call fails, and the table,
  the cache entries and the detached goroutines are the ones from before; for a valid
  album and a database that answers the error is the service's
  \<^verbatim>\<open>album not found ...\<close> around the store's not-found error or, after a hit on a stale
  by-id entry, the store's \<^verbatim>\<open>album with ID <id> not found\<close>.
\<close>

theorem update_preserves_created_at:
  fixes w :: "PostgresDB cached_state"
  shows
  "map CreatedAt (albums_table (store (snd (UpdateAlbum (cachedRepo J) album w)))) =
     map CreatedAt (albums_table (store w)) \<and>
   map ID (albums_table (store (snd (UpdateAlbum (cachedRepo J) album w)))) =
     map ID (albums_table (store w)) \<and>
   (snd (fst (UpdateAlbum (cachedRepo J) album w)) = None \<longrightarrow>
      ID album \<in> set (map ID (albums_table (store w))) \<and>
      (\<forall>r\<in>set (albums_table (store (snd (UpdateAlbum (cachedRepo J) album w)))).
         ID r = ID album \<longrightarrow>
         UpdatedAt r = timestamptz (clock (store w) (clock_reads (store w))))) \<and>
   (ID album \<in> set (map ID (albums_table (store w))) \<and> ID album \<noteq> '''' \<and>
    Title album \<noteq> '''' \<and> 0 \<le> Price album \<and> db_faults (store w) = [] \<longrightarrow>
      snd (fst (UpdateAlbum (cachedRepo J) album w)) = None) \<and>
   (ID album \<notin> set (map ID (albums_table (store w))) \<longrightarrow>
      snd (fst (UpdateAlbum (cachedRepo J) album w)) \<noteq> None \<and>
      albums_table (store (snd (UpdateAlbum (cachedRepo J) album w))) = albums_table (store w) \<and>
      kv (redis (snd (UpdateAlbum (cachedRepo J) album w))) = kv (redis w) \<and>
      goroutines (snd (UpdateAlbum (cachedRepo J) album w)) = goroutines w) \<and>
   (ID album \<notin> set (map ID (albums_table (store w))) \<and> ID album \<noteq> '''' \<and>
    Title album \<noteq> '''' \<and> 0 \<le> Price album \<and> db_faults (store w) = [] \<longrightarrow>
      snd (fst (UpdateAlbum (cachedRepo J) album w)) \<in>
        {Some (Errorf_w ''album not found '' (ErrorString ''album not found'')),
         Some (ErrorString (''album with ID '' @ ID album @ '' not found''))})"
proof -
  let ?g = "Cached_GetByID J NewPostgresAlbumRepository (ID album) w"
  let ?w1 = "snd ?g"
  let ?res = "UpdateAlbum (cachedRepo J) album w"
  have p1: "map CreatedAt (albums_table (store (snd ?res))) = map CreatedAt (albums_table (store w))"
    by (simp add: UpdateAlbum_cases Cached_Update_pg Postgres_Update_keeps
          split: prod.splits option.splits)
  have p2: "map ID (albums_table (store (snd ?res))) = map ID (albums_table (store w))"
    by (simp add: UpdateAlbum_cases Cached_Update_pg Postgres_Update_keeps
          split: prod.splits option.splits)
  have p3: "snd (fst ?res) = None \<longrightarrow>
      ID album \<in> set (map ID (albums_table (store w))) \<and>
      (\<forall>r\<in>set (albums_table (store (snd ?res))).
         ID r = ID album \<longrightarrow>
         UpdatedAt r = timestamptz (clock (store w) (clock_reads (store w))))"
  proof
    assume ok: "snd (fst ?res) = None"
    then obtain existing where ex: "fst ?g = (Some existing, None)"
      by (auto simp: UpdateAlbum_cases split: if_splits prod.splits option.splits)
    let ?a = "album\<lparr>CreatedAt := CreatedAt existing\<rparr>"
    let ?s1 = "snd (Postgres_GetByID (ID album) (store ?w1))"
    from ok ex have res: "?res = Cached_Update J NewPostgresAlbumRepository ?a ?w1"
      by (auto simp: UpdateAlbum_cases split: if_splits)
    with ok have upd: "snd (fst (Postgres_Update ?a ?s1)) = None"
      using Cached_Update_pg(1) [of J ?a ?w1] by simp
    have st: "store (snd ?res) = snd (Postgres_Update ?a ?s1)"
      using res Cached_Update_pg(2) [of J ?a ?w1] by simp
    from Postgres_Update_ok(1,2) [OF upd] st
    show "ID album \<in> set (map ID (albums_table (store w))) \<and>
      (\<forall>r\<in>set (albums_table (store (snd ?res))).
         ID r = ID album \<longrightarrow>
         UpdatedAt r = timestamptz (clock (store w) (clock_reads (store w))))"
      by simp
  qed
  have p4: "ID album \<in> set (map ID (albums_table (store w))) \<and> ID album \<noteq> '''' \<and>
    Title album \<noteq> '''' \<and> 0 \<le> Price album \<and> db_faults (store w) = [] \<longrightarrow>
      snd (fst ?res) = None"
  proof
    assume h: "ID album \<in> set (map ID (albums_table (store w))) \<and> ID album \<noteq> '''' \<and>
      Title album \<noteq> '''' \<and> 0 \<le> Price album \<and> db_faults (store w) = []"
    then have gok: "snd (fst ?g) = None" by (simp add: Cached_GetByID_pg_healthy)
    with Cached_GetByID_pg_result [OF gok] obtain existing where ex: "fst ?g = (Some existing, None)"
      by (cases "fst ?g") auto
    let ?a = "album\<lparr>CreatedAt := CreatedAt existing\<rparr>"
    let ?s1 = "snd (Postgres_GetByID (ID album) (store ?w1))"
    from h ex have res: "?res = Cached_Update J NewPostgresAlbumRepository ?a ?w1"
      by (auto simp: UpdateAlbum_cases)
    from h have "db_faults (store ?w1) = []" by (simp add: Cached_GetByID_pg_faults)
    then have "db_faults ?s1 = []" by (rule Postgres_GetByID_faults)
    moreover from h have "ID ?a \<in> set (map ID (albums_table ?s1))" by simp
    ultimately have "snd (fst (Postgres_Update ?a ?s1)) = None" by (rule Postgres_Update_healthy)
    then show "snd (fst ?res) = None"
      using res Cached_Update_pg(1) [of J ?a ?w1] by simp
  qed
  have p5: "ID album \<notin> set (map ID (albums_table (store w))) \<longrightarrow>
      snd (fst ?res) \<noteq> None \<and>
      albums_table (store (snd ?res)) = albums_table (store w) \<and>
      kv (redis (snd ?res)) = kv (redis w) \<and>
      goroutines (snd ?res) = goroutines w"
  proof
    assume absent: "ID album \<notin> set (map ID (albums_table (store w)))"
    have g: "goroutines ?w1 = goroutines w" using absent by (rule Cached_GetByID_pg_absent)
    have upd: "\<And>a. ID a = ID album \<Longrightarrow>
      snd (fst (Cached_Update J NewPostgresAlbumRepository a ?w1)) \<noteq> None \<and>
      albums_table (store (snd (Cached_Update J NewPostgresAlbumRepository a ?w1))) =
        albums_table (store w)"
    proof -
      fix a :: album assume a: "ID a = ID album"
      let ?s1 = "snd (Postgres_GetByID (ID a) (store ?w1))"
      from absent a have "ID a \<notin> set (map ID (albums_table ?s1))" by simp
      from Postgres_Update_absent [OF this]
      show "snd (fst (Cached_Update J NewPostgresAlbumRepository a ?w1)) \<noteq> None \<and>
        albums_table (store (snd (Cached_Update J NewPostgresAlbumRepository a ?w1))) =
          albums_table (store w)"
        by (simp add: Cached_Update_pg)
    qed
    show "snd (fst ?res) \<noteq> None \<and>
      albums_table (store (snd ?res)) = albums_table (store w) \<and>
      kv (redis (snd ?res)) = kv (redis w) \<and>
      goroutines (snd ?res) = goroutines w"
      using g upd
      by (auto simp: UpdateAlbum_cases Cached_Update_pg split: prod.splits option.splits)
  qed
  have p6: "ID album \<notin> set (map ID (albums_table (store w))) \<and> ID album \<noteq> '''' \<and>
    Title album \<noteq> '''' \<and> 0 \<le> Price album \<and> db_faults (store w) = [] \<longrightarrow>
      snd (fst ?res) \<in>
        {Some (Errorf_w ''album not found '' (ErrorString ''album not found'')),
         Some (ErrorString (''album with ID '' @ ID album @ '' not found''))}"
  proof
    assume h: "ID album \<notin> set (map ID (albums_table (store w))) \<and> ID album \<noteq> '''' \<and>
      Title album \<noteq> '''' \<and> 0 \<le> Price album \<and> db_faults (store w) = []"
    then have e: "snd (fst ?g) \<in> {None, Some (ErrorString ''album not found'')}"
      by (intro Cached_GetByID_pg_absent_error) simp_all
    have upd: "\<And>a. ID a = ID album \<Longrightarrow>
      snd (fst (Cached_Update J NewPostgresAlbumRepository a ?w1)) =
        Some (ErrorString (''album with ID '' @ ID album @ '' not found''))"
    proof -
      fix a :: album assume a: "ID a = ID album"
      let ?s1 = "snd (Postgres_GetByID (ID a) (store ?w1))"
      from h have "db_faults (store ?w1) = []" by (simp add: Cached_GetByID_pg_faults)
      then have "db_faults ?s1 = []" by (rule Postgres_GetByID_faults)
      then have "healthy 2 (db_faults ?s1)" by (simp add: healthy_def)
      moreover from h a have "ID a \<notin> set (map ID (albums_table ?s1))" by simp
      ultimately show "snd (fst (Cached_Update J NewPostgresAlbumRepository a ?w1)) =
        Some (ErrorString (''album with ID '' @ ID album @ '' not found''))"
        using Postgres_Update_not_found [of ?s1 a] a by (simp add: Cached_Update_pg)
    qed
    from h e upd Cached_GetByID_pg_result [of J "ID album" w]
    show "snd (fst ?res) \<in>
        {Some (Errorf_w ''album not found '' (ErrorString ''album not found'')),
         Some (ErrorString (''album with ID '' @ ID album @ '' not found''))}"
      by (auto simp: UpdateAlbum_cases split: prod.splits option.splits)
  qed
  from p1 p2 p3 p4 p5 p6 show ?thesis by blast
qed

text \<open>
  The price of the stored album is changed to 45: the update succeeds, the row keeps its
  creation timestamp 0 and gets the reading 1000 as \<^verbatim>\<open>updated_at\<close>. An update of the
  identifier 2, which no row has, fails with a not-found error and leaves the table as it
  was.
\<close>

theorem update_preserves_created_at_witness:
  "ID (blue_train\<lparr>Price := 45\<rparr>) \<in> set (map ID (albums_table (store (shop [] [] [])))) \<and>
   ID (blue_train\<lparr>Price := 45\<rparr>) \<noteq> '''' \<and> Title (blue_train\<lparr>Price := 45\<rparr>) \<noteq> '''' \<and>
   0 \<le> Price (blue_train\<lparr>Price := 45\<rparr>) \<and> db_faults (store (shop [] [] [])) = [] \<and>
   snd (fst (UpdateAlbum (cachedRepo shop_codec) (blue_train\<lparr>Price := 45\<rparr>) (shop [] [] []))) = None \<and>
   map CreatedAt (albums_table (store (snd
     (UpdateAlbum (cachedRepo shop_codec) (blue_train\<lparr>Price := 45\<rparr>) (shop [] [] []))))) = [0] \<and>
   map UpdatedAt (albums_table (store (snd
     (UpdateAlbum (cachedRepo shop_codec) (blue_train\<lparr>Price := 45\<rparr>) (shop [] [] []))))) = [1000] \<and>
   ID (time_out\<lparr>ID := ''2''\<rparr>) \<notin> set (map ID (albums_table (store (shop [] [] [])))) \<and>
   ID (time_out\<lparr>ID := ''2''\<rparr>) \<noteq> '''' \<and> Title (time_out\<lparr>ID := ''2''\<rparr>) \<noteq> '''' \<and>
   0 \<le> Price (time_out\<lparr>ID := ''2''\<rparr>) \<and>
   snd (fst (UpdateAlbum (cachedRepo shop_codec) (time_out\<lparr>ID := ''2''\<rparr>) (shop [] [] []))) \<in>
     {Some (Errorf_w ''album not found '' (ErrorString ''album not found'')),
      Some (ErrorString ''album with ID 2 not found'')} \<and>
   albums_table (store (snd
     (UpdateAlbum (cachedRepo shop_codec) (time_out\<lparr>ID := ''2''\<rparr>) (shop [] [] [])))) = [blue_train]"
proof -
  let ?w = "shop [] [] []"
  let ?a = "blue_train\<lparr>Price := 45\<rparr>"
  let ?b = "time_out\<lparr>ID := ''2''\<rparr>"
  have h: "ID ?a \<in> set (map ID (albums_table (store ?w)))" "ID ?a \<noteq> ''''" "Title ?a \<noteq> ''''"
    "0 \<le> Price ?a" "db_faults (store ?w) = []"
    "ID ?b \<notin> set (map ID (albums_table (store ?w)))" "ID ?b \<noteq> ''''" "Title ?b \<noteq> ''''"
    "0 \<le> Price ?b"
    by (simp_all add: shop_def shop_db_def blue_train_def time_out_def)
  have e: "ID blue_train = ''1''" "albums_table (store ?w) = [blue_train]"
    "CreatedAt blue_train = 0" "timestamptz (clock (store ?w) (clock_reads (store ?w))) = 1000"
    by (simp_all add: shop_def shop_db_def blue_train_def timestamptz_def ticking_def)
  let ?t = "albums_table (store (snd (UpdateAlbum (cachedRepo shop_codec) ?a ?w)))"
  from h e update_preserves_created_at [where J = shop_codec and album = ?a and w = ?w]
  have a: "snd (fst (UpdateAlbum (cachedRepo shop_codec) ?a ?w)) = None"
    "map CreatedAt ?t = [0]" "map ID ?t = [''1'']"
    "\<forall>r\<in>set ?t. ID r = ''1'' \<longrightarrow> UpdatedAt r = 1000"
    by simp_all
  from a(3) obtain r where "?t = [r]" "ID r = ''1''" by (auto simp: map_eq_Cons_conv)
  with a(4) have u: "map UpdatedAt ?t = [1000]" by simp
  from h e a(1,2) u
    update_preserves_created_at [where J = shop_codec and album = ?b and w = ?w]
  show ?thesis by simp
qed

text \<open>
  Claim C8. On the record store, GetByID returns the error with the text
  \<^verbatim>\<open>album not found\<close>, and Update and Delete the error with the text
  \<^verbatim>\<open>album with ID <id> not found\<close>, exactly when the driver calls succeed and no row
  has the identifier. For an absent identifier the three operations always fail, with that
  plain error when the driver answers; every other failure is an error that wraps the
  driver's, with a different text, so a caller tells the two apart by the error's text or
  by unwrapping it.
\<close>

theorem not_found_distinguishable:
  "((\<exists>e. snd (fst (Postgres_GetByID id' s)) = Some e \<and> Error e = ''album not found'') \<longleftrightarrow>
      healthy 1 (db_faults s) \<and> id' \<notin> set (map ID (albums_table s))) \<and>
   ((\<exists>e. snd (fst (Postgres_Update album s)) = Some e \<and>
         Error e = ''album with ID '' @ ID album @ '' not found'') \<longleftrightarrow>
      healthy 2 (db_faults s) \<and> ID album \<notin> set (map ID (albums_table s))) \<and>
   ((\<exists>e. fst (Postgres_Delete id' s) = Some e \<and>
         Error e = ''album with ID '' @ id' @ '' not found'') \<longleftrightarrow>
      healthy 2 (db_faults s) \<and> id' \<notin> set (map ID (albums_table s))) \<and>
   (id' \<notin> set (map ID (albums_table s)) \<longrightarrow>
      (\<exists>e. fst (Postgres_GetByID id' s) = (None, Some e)) \<and>
      (healthy 1 (db_faults s) \<longrightarrow>
         fst (Postgres_GetByID id' s) = (None, Some (ErrorString ''album not found''))) \<and>
      (\<not> healthy 1 (db_faults s) \<longrightarrow>
         (\<exists>e. snd (fst (Postgres_GetByID id' s)) = Some e \<and> Unwrap e \<noteq> None)) \<and>
      (\<exists>e. fst (Postgres_Delete id' s) = Some e) \<and>
      (healthy 2 (db_faults s) \<longrightarrow>
         fst (Postgres_Delete id' s) = Some (ErrorString (''album with ID '' @ id' @ '' not found'')))) \<and>
   (ID album \<notin> set (map ID (albums_table s)) \<longrightarrow>
      (\<exists>e. snd (fst (Postgres_Update album s)) = Some e) \<and>
      (healthy 2 (db_faults s) \<longrightarrow>
         snd (fst (Postgres_Update album s)) =
           Some (ErrorString (''album with ID '' @ ID album @ '' not found''))))"
proof (intro conjI)
  show "(\<exists>e. snd (fst (Postgres_GetByID id' s)) = Some e \<and> Error e = ''album not found'') \<longleftrightarrow>
      healthy 1 (db_faults s) \<and> id' \<notin> set (map ID (albums_table s))"
    by (auto simp: Postgres_GetByID_cases healthy_1 Errorf_w_def find_None_iff
             dest: find_Some_ID split: option.splits)
  show "(\<exists>e. snd (fst (Postgres_Update album s)) = Some e \<and>
         Error e = ''album with ID '' @ ID album @ '' not found'') \<longleftrightarrow>
      healthy 2 (db_faults s) \<and> ID album \<notin> set (map ID (albums_table s))"
    unfolding absent_conv [symmetric]
    by (auto simp: Postgres_Update_cases healthy_2 Errorf_w_def Let_def driver_call_snd_upd
             split: option.splits)
  show "(\<exists>e. fst (Postgres_Delete id' s) = Some e \<and>
         Error e = ''album with ID '' @ id' @ '' not found'') \<longleftrightarrow>
      healthy 2 (db_faults s) \<and> id' \<notin> set (map ID (albums_table s))"
    unfolding absent_conv [symmetric]
    by (auto simp: Postgres_Delete_cases healthy_2 Errorf_w_def Let_def driver_call_snd_upd
             split: option.splits)
  show "id' \<notin> set (map ID (albums_table s)) \<longrightarrow>
      (\<exists>e. fst (Postgres_GetByID id' s) = (None, Some e)) \<and>
      (healthy 1 (db_faults s) \<longrightarrow>
         fst (Postgres_GetByID id' s) = (None, Some (ErrorString ''album not found''))) \<and>
      (\<not> healthy 1 (db_faults s) \<longrightarrow>
         (\<exists>e. snd (fst (Postgres_GetByID id' s)) = Some e \<and> Unwrap e \<noteq> None)) \<and>
      (\<exists>e. fst (Postgres_Delete id' s) = Some e) \<and>
      (healthy 2 (db_faults s) \<longrightarrow>
         fst (Postgres_Delete id' s) = Some (ErrorString (''album with ID '' @ id' @ '' not found'')))"
    unfolding absent_conv [symmetric]
    by (auto simp: Postgres_GetByID_cases Postgres_Delete_cases healthy_1 healthy_2 find_None_iff
          Let_def driver_call_snd_upd Errorf_w_def split: option.splits)
  show "ID album \<notin> set (map ID (albums_table s)) \<longrightarrow>
      (\<exists>e. snd (fst (Postgres_Update album s)) = Some e) \<and>
      (healthy 2 (db_faults s) \<longrightarrow>
         snd (fst (Postgres_Update album s)) =
           Some (ErrorString (''album with ID '' @ ID album @ '' not found'')))"
    unfolding absent_conv [symmetric]
    by (auto simp: Postgres_Update_cases healthy_2 Let_def driver_call_snd_upd
             split: option.splits)
qed

text \<open>
  No row has the identifier 2. With a database that answers, the three operations return
  the plain not-found errors; with a database that refuses the call, GetByID returns an
  error that wraps the driver's.
\<close>

theorem not_found_distinguishable_witness:
  "''2'' \<notin> set (map ID (albums_table (shop_db []))) \<and>
   healthy 1 (db_faults (shop_db [])) \<and> healthy 2 (db_faults (shop_db [])) \<and>
   fst (Postgres_GetByID ''2'' (shop_db [])) = (None, Some (ErrorString ''album not found'')) \<and>
   fst (Postgres_Delete ''2'' (shop_db [])) = Some (ErrorString ''album with ID 2 not found'') \<and>
   snd (fst (Postgres_Update (time_out\<lparr>ID := ''2''\<rparr>) (shop_db []))) =
     Some (ErrorString ''album with ID 2 not found'') \<and>
   ''2'' \<notin> set (map ID (albums_table (shop_db [Some ''connection refused'']))) \<and>
   \<not> healthy 1 (db_faults (shop_db [Some ''connection refused''])) \<and>
   (\<exists>e. snd (fst (Postgres_GetByID ''2'' (shop_db [Some ''connection refused'']))) = Some e \<and>
        Unwrap e \<noteq> None)"
proof -
  have h: "''2'' \<notin> set (map ID (albums_table (shop_db [])))"
    "ID (time_out\<lparr>ID := ''2''\<rparr>) \<notin> set (map ID (albums_table (shop_db [])))"
    "healthy 1 (db_faults (shop_db []))" "healthy 2 (db_faults (shop_db []))"
    "''2'' \<notin> set (map ID (albums_table (shop_db [Some ''connection refused''])))"
    "\<not> healthy 1 (db_faults (shop_db [Some ''connection refused'']))"
    by (simp_all add: healthy_def shop_db_def blue_train_def)
  from h
    not_found_distinguishable [where id' = "''2''" and s = "shop_db []"
      and album = "time_out\<lparr>ID := ''2''\<rparr>"]
    not_found_distinguishable [where id' = "''2''" and s = "shop_db [Some ''connection refused'']"
      and album = "time_out\<lparr>ID := ''2''\<rparr>"]
  show ?thesis by simp
qed

text \<open>
  Claim C9, as the code has it. Create takes three clock readings in a row: the identifier
  is the decimal rendering of the first and is never empty, \<^verbatim>\<open>CreatedAt\<close> is the second
  and \<^verbatim>\<open>UpdatedAt\<close> the third. So \<^verbatim>\<open>CreatedAt\<close> is not after \<^verbatim>\<open>UpdatedAt\<close> when the
  clock does not run backwards between the two readings, and the two are equal only when
  the readings coincide. This holds for the PostgreSQL store, for the in-memory store, and
  for every album the service accepts over the decorator.
\<close>

theorem create_assigns_id_and_timestamps:
  "ID (fst (fst (Postgres_Create album s))) \<noteq> '''' \<and>
   CreatedAt (fst (fst (Postgres_Create album s))) = clock s (clock_reads s + 1) \<and>
   UpdatedAt (fst (fst (Postgres_Create album s))) = clock s (clock_reads s + 2) \<and>
   ID (fst (fst (Memory_Create album r))) \<noteq> '''' \<and>
   CreatedAt (fst (fst (Memory_Create album r))) = clock r (clock_reads r + 1) \<and>
   UpdatedAt (fst (fst (Memory_Create album r))) = clock r (clock_reads r + 2) \<and>
   (snd (fst (CreateAlbum (cachedRepo J) album w)) = None \<longrightarrow>
      ID (fst (fst (CreateAlbum (cachedRepo J) album w))) \<noteq> '''' \<and>
      CreatedAt (fst (fst (CreateAlbum (cachedRepo J) album w))) =
        clock (store w) (clock_reads (store w) + 1) \<and>
      UpdatedAt (fst (fst (CreateAlbum (cachedRepo J) album w))) =
        clock (store w) (clock_reads (store w) + 2) \<and>
      (clock (store w) (clock_reads (store w) + 1) \<le> clock (store w) (clock_reads (store w) + 2)
       \<longrightarrow> CreatedAt (fst (fst (CreateAlbum (cachedRepo J) album w))) \<le>
             UpdatedAt (fst (fst (CreateAlbum (cachedRepo J) album w)))))"
  by (auto simp: Postgres_Create_album Memory_Create_album Sprintf_d_nonempty CreateAlbum_def
        Cached_Create_album split: if_splits)

text \<open>
  The scenario of the specification on a clock that advances by one nanosecond per
  reading: Time Out is accepted and comes back with the identifier 1000, created at 1001
  and updated at 1002.
\<close>

theorem create_assigns_id_and_timestamps_witness:
  "snd (fst (CreateAlbum (cachedRepo shop_codec) time_out (shop [] [] []))) = None \<and>
   clock (store (shop [] [] [])) (clock_reads (store (shop [] [] [])) + 1) \<le>
     clock (store (shop [] [] [])) (clock_reads (store (shop [] [] [])) + 2) \<and>
   ID (fst (fst (CreateAlbum (cachedRepo shop_codec) time_out (shop [] [] [])))) \<noteq> '''' \<and>
   CreatedAt (fst (fst (CreateAlbum (cachedRepo shop_codec) time_out (shop [] [] [])))) = 1001 \<and>
   UpdatedAt (fst (fst (CreateAlbum (cachedRepo shop_codec) time_out (shop [] [] [])))) = 1002 \<and>
   CreatedAt (fst (fst (CreateAlbum (cachedRepo shop_codec) time_out (shop [] [] [])))) \<le>
     UpdatedAt (fst (fst (CreateAlbum (cachedRepo shop_codec) time_out (shop [] [] []))))"
proof -
  have h: "snd (fst (CreateAlbum (cachedRepo shop_codec) time_out (shop [] [] []))) = None"
    by (simp add: CreateAlbum_def Cached_Create_effect store_eval)
  have c: "clock (store (shop [] [] [])) (clock_reads (store (shop [] [] [])) + 1) = 1001"
    "clock (store (shop [] [] [])) (clock_reads (store (shop [] [] [])) + 2) = 1002"
    by (simp_all add: shop_def shop_db_def ticking_def)
  from h c create_assigns_id_and_timestamps [where J = shop_codec and album = time_out
    and w = "shop [] [] []" and s = "shop_db []"
    and r = "\<lparr>clock = ticking, clock_reads = 0, mem_albums = []\<rparr>"]
  show ?thesis by simp
qed

text \<open>
  Claim C9 as stated fails: on that clock the record the caller gets back has
  \<^verbatim>\<open>CreatedAt\<close> 1001 and \<^verbatim>\<open>UpdatedAt\<close> 1002.
\<close>

theorem create_timestamps_differ_counterexample:
  "snd (fst (CreateAlbum (cachedRepo shop_codec) time_out (shop [] [] []))) = None \<and>
   CreatedAt (fst (fst (CreateAlbum (cachedRepo shop_codec) time_out (shop [] [] [])))) \<noteq>
     UpdatedAt (fst (fst (CreateAlbum (cachedRepo shop_codec) time_out (shop [] [] []))))"
  by (simp add: CreateAlbum_def Cached_Create_effect store_eval)

text \<open>
  Claim C10. No write of the decorator touches the all-albums entry: Create, Update and
  Delete leave the cache as it is when they return, and none of the cache commands they
  dispatch addresses the key \<^verbatim>\<open>album:all:\<close>; the populations dispatched by GetByID,
  GetByArtist and GetInStock do not address it either, so only GetAll writes it. Hence,
  when no population of that key was pending before the write, the entry is the same
  after the write and after any schedule of the detached goroutines, and a GetAll whose
  cache read goes through still returns the list decoded from the entry stored before the
  write.
\<close>

theorem writes_never_touch_all_albums_entry:
  "(\<forall>op\<in>set (new_ops w (snd (Cached_Create J repo album w))).
      op_key op \<noteq> generateCacheKey ''all'' '''') \<and>
   (\<forall>op\<in>set (new_ops w (snd (Cached_Update J repo album w))).
      op_key op \<noteq> generateCacheKey ''all'' '''') \<and>
   (\<forall>op\<in>set (new_ops w (snd (Cached_Delete J repo id' w))).
      op_key op \<noteq> generateCacheKey ''all'' '''') \<and>
   redis (snd (Cached_Create J repo album w)) = redis w \<and>
   redis (snd (Cached_Update J repo album w)) = redis w \<and>
   redis (snd (Cached_Delete J repo id' w)) = redis w \<and>
   (\<forall>op\<in>set (new_ops w (snd (Cached_GetByID J repo id' w))).
      op_key op \<noteq> generateCacheKey ''all'' '''') \<and>
   (\<forall>op\<in>set (new_ops w (snd (Cached_GetByArtist J repo artist w))).
      op_key op \<noteq> generateCacheKey ''all'' '''') \<and>
   (\<forall>op\<in>set (new_ops w (snd (Cached_GetInStock J repo w))).
      op_key op \<noteq> generateCacheKey ''all'' '''') \<and>
   (untouched (generateCacheKey ''all'' '''') (goroutines w) \<and>
    w' \<in> {snd (Cached_Create J repo album w), snd (Cached_Update J repo album w),
          snd (Cached_Delete J repo id' w)} \<longrightarrow>
      kv (redis (run_schedule sched w')) (generateCacheKey ''all'' '''') =
        kv (redis w) (generateCacheKey ''all'' '''') \<and>
      (kv (redis w) (generateCacheKey ''all'' '''') = Some (d, t) \<and> d \<noteq> '''' \<and>
       Unmarshal_albums J d = Some xs \<and>
       fst (next_fault (redis_faults (redis (run_schedule sched w')))) = None \<longrightarrow>
         fst (Cached_GetAll J repo (run_schedule sched w')) = (xs, None)))"
proof -
  have sched: "untouched (generateCacheKey ''all'' '''') (goroutines w) \<and>
    w' \<in> {snd (Cached_Create J repo album w), snd (Cached_Update J repo album w),
          snd (Cached_Delete J repo id' w)} \<longrightarrow>
      kv (redis (run_schedule sched w')) (generateCacheKey ''all'' '''') =
        kv (redis w) (generateCacheKey ''all'' '''') \<and>
      (kv (redis w) (generateCacheKey ''all'' '''') = Some (d, t) \<and> d \<noteq> '''' \<and>
       Unmarshal_albums J d = Some xs \<and>
       fst (next_fault (redis_faults (redis (run_schedule sched w')))) = None \<longrightarrow>
         fst (Cached_GetAll J repo (run_schedule sched w')) = (xs, None))"
  proof
    assume h: "untouched (generateCacheKey ''all'' '''') (goroutines w) \<and>
      w' \<in> {snd (Cached_Create J repo album w), snd (Cached_Update J repo album w),
            snd (Cached_Delete J repo id' w)}"
    then have u: "untouched (generateCacheKey ''all'' '''') (goroutines w')"
      using write_untouched by auto
    from h have r: "redis w' = redis w"
      by (auto simp: Cached_Create_effect Cached_Update_effect Cached_Delete_effect)
    from run_schedule_untouched [OF u, of sched] r
    have same: "kv (redis (run_schedule sched w')) (generateCacheKey ''all'' '''') =
        kv (redis w) (generateCacheKey ''all'' '''')"
      by simp
    then show "kv (redis (run_schedule sched w')) (generateCacheKey ''all'' '''') =
        kv (redis w) (generateCacheKey ''all'' '''') \<and>
      (kv (redis w) (generateCacheKey ''all'' '''') = Some (d, t) \<and> d \<noteq> '''' \<and>
       Unmarshal_albums J d = Some xs \<and>
       fst (next_fault (redis_faults (redis (run_schedule sched w')))) = None \<longrightarrow>
         fst (Cached_GetAll J repo (run_schedule sched w')) = (xs, None))"
      using Cached_GetAll_hit [of "run_schedule sched w'" d t J xs repo] by simp
  qed
  show ?thesis
    by (intro conjI)
      (rule write_ops_keys read_ops_keys sched Cached_Create_effect Cached_Update_effect
         Cached_Delete_effect)+
qed

text \<open>
  The all-albums entry holds the one stored album. Time Out is created and the goroutine
  of the Create runs to its end: the in-stock deletion it dispatched is on another key,
  the entry is the one from before, and GetAll still answers with the one album although
  the store now holds two.
\<close>

theorem writes_never_touch_all_albums_entry_witness:
  "CacheDel ''album:stock:'' \<in> set (new_ops (shop [] [(''album:all:'', ''[{blue train}]'', 60000000000)] [])
     (snd (Cached_Create shop_codec NewPostgresAlbumRepository time_out
       (shop [] [(''album:all:'', ''[{blue train}]'', 60000000000)] [])))) \<and>
   op_key (CacheDel ''album:stock:'') \<noteq> generateCacheKey ''all'' '''' \<and>
   untouched (generateCacheKey ''all'' '''')
     (goroutines (shop [] [(''album:all:'', ''[{blue train}]'', 60000000000)] [])) \<and>
   kv (redis (shop [] [(''album:all:'', ''[{blue train}]'', 60000000000)] []))
     (generateCacheKey ''all'' '''') = Some (''[{blue train}]'', 60000000000) \<and>
   Unmarshal_albums shop_codec ''[{blue train}]'' = Some [blue_train] \<and>
   fst (next_fault (redis_faults (redis (run_schedule [0, 0, 0]
     (snd (Cached_Create shop_codec NewPostgresAlbumRepository time_out
       (shop [] [(''album:all:'', ''[{blue train}]'', 60000000000)] []))))))) = None \<and>
   length (albums_table (store (run_schedule [0, 0, 0]
     (snd (Cached_Create shop_codec NewPostgresAlbumRepository time_out
       (shop [] [(''album:all:'', ''[{blue train}]'', 60000000000)] [])))))) = 2 \<and>
   fst (Cached_GetAll shop_codec NewPostgresAlbumRepository (run_schedule [0, 0, 0]
     (snd (Cached_Create shop_codec NewPostgresAlbumRepository time_out
       (shop [] [(''album:all:'', ''[{blue train}]'', 60000000000)] []))))) = ([blue_train], None)"
proof -
  let ?w = "shop [] [(''album:all:'', ''[{blue train}]'', 60000000000)] []"
  let ?w' = "snd (Cached_Create shop_codec NewPostgresAlbumRepository time_out ?w)"
  have m: "CacheDel ''album:stock:'' \<in> set (new_ops ?w ?w')"
    "length (albums_table (store (run_schedule [0, 0, 0] ?w'))) = 2"
    by (simp_all add: new_ops_def store_eval cache_eval)
  have k: "op_key (CacheDel ''album:stock:'') \<noteq> generateCacheKey ''all'' ''''"
    by (simp add: generateCacheKey_def)
  have h: "untouched (generateCacheKey ''all'' '''') (goroutines ?w)"
    "kv (redis ?w) (generateCacheKey ''all'' '''') = Some (''[{blue train}]'', 60000000000)"
    "Unmarshal_albums shop_codec ''[{blue train}]'' = Some [blue_train]"
    "fst (next_fault (redis_faults (redis (run_schedule [0, 0, 0] ?w')))) = None"
    by (simp_all add: untouched_def store_eval cache_eval)
  from m k h
    writes_never_touch_all_albums_entry [where w = ?w and J = shop_codec
      and repo = NewPostgresAlbumRepository and album = time_out and w' = ?w'
      and sched = "[0, 0, 0]" and d = "''[{blue train}]''" and t = 60000000000
      and xs = "[blue_train]" and id' = "''1''" and artist = "''John Coltrane''"]
  show ?thesis by simp
qed

end
